theory Spec2Isabelle
  imports Complex_Main
begin

section \<open>Python exceptions\<close>

text \<open>
  A raised Python exception is a value: the name of its class and its message.
  Every function of the model that can raise returns a sum whose left summand
  carries the exception.
\<close>

datatype py_exception = PyExc (exc_class: string) (exc_msg: string)

section \<open>The analysis task \<open>ClimatologyMapMLD\<close> (ocean/climatology\_map\_mld.py)\<close>

subsection \<open>Data\<close>

text \<open>
  \<open>MpasClimatologyTask\<close> is defined in another module. The constructor reads one
  thing from such a task: \<open>config.get('runs', 'mainRunName')\<close> of the
  reference task; the record holds that value.
\<close>

record mpas_climatology_task =
  mainRunName :: string

text \<open>
  The configuration, as far as \<open>ClimatologyMapMLD.__init__\<close> reads it: the values
  of \<open>config.getExpression(sectionName, 'seasons')\<close> and
  \<open>config.getExpression(sectionName, 'comparisonGrids')\<close>, and the path returned by
  \<open>build_config_full_path(config, 'oceanObservations', 'mldSubdirectory')\<close>.
  The parser and \<open>build_config_full_path\<close> belong to other modules, so their
  results are taken as given.
\<close>

record mld_config =
  cfg_seasons :: "string list"
  cfg_comparisonGrids :: "string list"
  cfg_observationsDirectory :: string

text \<open>The keyword arguments of \<open>set_plot_info\<close>.\<close>

record plot_info =
  outFileLabel :: string
  fieldNameInTitle :: string
  mpasFieldName :: string
  refFieldName :: string
  refTitleLabel :: string
  diffTitleLabel :: string
  unitsLabel :: string
  imageCaption :: string
  galleryGroup :: string
  groupSubtitle :: "string option"
  groupLink :: string
  galleryName :: "string option"

text \<open>
  The subtasks the constructor builds, each with the arguments it is built from
  (\<open>parentTask = self\<close> is the task under construction and is left out).
  \<open>iselValues\<close> is a Python dict or \<open>None\<close>.
\<close>

datatype subtask =
    RemapMpasClimatologySubtask
      (rm_mpasClimatologyTask: mpas_climatology_task)
      (rm_climatologyName: string)
      (rm_variableList: "string list")
      (rm_comparisonGridNames: "string list")
      (rm_seasons: "string list")
      (rm_iselValues: "(string \<times> int) list option")
  | RemapObservedMLDClimatology
      (ro_seasons: "string list")
      (ro_fileName: string)
      (ro_outFilePrefix: string)
      (ro_comparisonGridNames: "string list")
  | RemapMpasReferenceClimatologySubtask
      (rr_mpasClimatologyTask: mpas_climatology_task)
      (rr_climatologyName: string)
      (rr_variableList: "string list")
      (rr_comparisonGridNames: "string list")
      (rr_seasons: "string list")
      (rr_iselValues: "(string \<times> int) list option")
  | PlotClimatologyMapSubtask
      (pl_season: string)
      (pl_comparisonGridName: string)
      (pl_remapMpasClimatologySubtask: subtask)
      (pl_remapObsClimatologySubtask: "subtask option")
      (pl_refMpasClimatologySubtask: "subtask option")
      (pl_info: "plot_info option")

text \<open>The task object: what \<open>AnalysisTask.__init__\<close> is called with, and its children.\<close>

record analysis_task =
  taskName :: string
  componentName :: string
  tags :: "string list"
  subtasks :: "subtask list"

text \<open>
  The state of a run of the constructor: the task, and a log of every subtask
  constructor that has been called, in order. An entry is the object constructed; for
  a plot subtask it carries the plot information set right after the construction.
\<close>

record ctor_state =
  task :: analysis_task
  constructed :: "subtask list"

subsection \<open>Operations\<close>

definition add_subtask :: "subtask \<Rightarrow> ctor_state \<Rightarrow> ctor_state" where
  "add_subtask s st = st\<lparr>task := (task st)\<lparr>subtasks := subtasks (task st) @ [s]\<rparr>\<rparr>"

definition construct :: "subtask \<Rightarrow> ctor_state \<Rightarrow> ctor_state" where
  "construct s st = st\<lparr>constructed := constructed st @ [s]\<rparr>"

definition set_plot_info :: "plot_info \<Rightarrow> subtask \<Rightarrow> subtask" where
  "set_plot_info info s =
     (case s of
        PlotClimatologyMapSubtask season grid main obs ref _ \<Rightarrow>
          PlotClimatologyMapSubtask season grid main obs ref (Some info)
      | _ \<Rightarrow> s)"

text \<open>The local variables the two branches of \<open>if mpasRefClimatologyTask is None\<close> set.\<close>

record comparison =
  remapObservationsSubtask :: "subtask option"
  remapRefClimatologySubtask :: "subtask option"
  cmp_galleryName :: "string option"
  cmp_refTitleLabel :: string
  cmp_diffTitleLabel :: string
  cmp_refFieldName :: string
  cmp_outFileLabel :: string

definition mld_fieldName :: string where
  "mld_fieldName = ''mld''"

definition mld_mpasFieldName :: string where
  "mld_mpasFieldName = ''timeMonthly_avg_dThreshMLD''"

definition mld_iselValues :: "(string \<times> int) list option" where
  "mld_iselValues = None"

text \<open>Lines 89 to 129: the choice of the comparison.\<close>

definition choose_comparison ::
  "mld_config \<Rightarrow> mpas_climatology_task option \<Rightarrow> string list \<Rightarrow> string list \<Rightarrow>
     ctor_state \<Rightarrow> comparison \<times> ctor_state" where
  "choose_comparison config mpasRefClimatologyTask seasons comparisonGridNames st =
     (case mpasRefClimatologyTask of
        None \<Rightarrow>
          (let observationsDirectory = cfg_observationsDirectory config;
               obsFileName = observationsDirectory @ ''/holtetalley_mld_climatology.nc'';
               refFieldName = ''mld'';
               outFileLabel = ''mldHolteTalleyARGO'';
               obs = RemapObservedMLDClimatology seasons obsFileName refFieldName
                       comparisonGridNames;
               st1 = construct obs st;
               st2 = add_subtask obs st1
           in (\<lparr>remapObservationsSubtask = Some obs,
                remapRefClimatologySubtask = None,
                cmp_galleryName = Some ''Observations: Holte-Talley ARGO'',
                cmp_refTitleLabel = ''Observations (HolteTalley density threshold MLD)'',
                cmp_diffTitleLabel = ''Model - Observations'',
                cmp_refFieldName = refFieldName,
                cmp_outFileLabel = outFileLabel\<rparr>, st2))
      | Some refTask \<Rightarrow>
          (let ref = RemapMpasReferenceClimatologySubtask refTask mld_fieldName
                       [mld_mpasFieldName] comparisonGridNames seasons mld_iselValues;
               st1 = construct ref st;
               refRunName = mainRunName refTask
           in (\<lparr>remapObservationsSubtask = None,
                remapRefClimatologySubtask = Some ref,
                cmp_galleryName = None,
                cmp_refTitleLabel = ''Ref: '' @ refRunName,
                cmp_diffTitleLabel = ''Main - Reference'',
                cmp_refFieldName = mld_mpasFieldName,
                cmp_outFileLabel = ''mld''\<rparr>, st1)))"

text \<open>Lines 134 to 154: the body of the inner loop, for one season and one grid.\<close>

definition plot_subtask_for :: "subtask \<Rightarrow> comparison \<Rightarrow> string \<Rightarrow> string \<Rightarrow> subtask" where
  "plot_subtask_for remapClimatologySubtask c comparisonGridName season =
     set_plot_info
       \<lparr>outFileLabel = cmp_outFileLabel c,
        fieldNameInTitle = ''MLD'',
        mpasFieldName = mld_mpasFieldName,
        refFieldName = cmp_refFieldName c,
        refTitleLabel = cmp_refTitleLabel c,
        diffTitleLabel = cmp_diffTitleLabel c,
        unitsLabel = ''m'',
        imageCaption = ''Mean Mixed-Layer Depth'',
        galleryGroup = ''Mixed-Layer Depth'',
        groupSubtitle = None,
        groupLink = ''mld'',
        galleryName = cmp_galleryName c\<rparr>
       (PlotClimatologyMapSubtask season comparisonGridName remapClimatologySubtask
          (remapObservationsSubtask c) (remapRefClimatologySubtask c) None)"

text \<open>\<open>for season in seasons\<close>.\<close>

primrec season_loop ::
  "subtask \<Rightarrow> comparison \<Rightarrow> string \<Rightarrow> string list \<Rightarrow> ctor_state \<Rightarrow> ctor_state" where
  "season_loop remap c comparisonGridName [] st = st"
| "season_loop remap c comparisonGridName (season # rest) st =
     (let subtask = plot_subtask_for remap c comparisonGridName season
      in season_loop remap c comparisonGridName rest
           (add_subtask subtask (construct subtask st)))"

text \<open>\<open>for comparisonGridName in comparisonGridNames\<close>.\<close>

primrec grid_loop ::
  "subtask \<Rightarrow> comparison \<Rightarrow> string list \<Rightarrow> string list \<Rightarrow> ctor_state \<Rightarrow> ctor_state" where
  "grid_loop remap c [] seasons st = st"
| "grid_loop remap c (comparisonGridName # rest) seasons st =
     grid_loop remap c rest seasons (season_loop remap c comparisonGridName seasons st)"

text \<open>
  \<open>ClimatologyMapMLD.__init__\<close>. A \<open>raise\<close> returns the exception together with
  the state reached when it was raised.
\<close>

definition initial_state :: ctor_state where
  "initial_state =
     \<lparr>task = \<lparr>taskName = ''climatologyMapMLD'', componentName = ''ocean'',
               tags = [''climatology'', ''horizontalMap'', mld_fieldName],
               subtasks = []\<rparr>,
      constructed = []\<rparr>"

definition ClimatologyMapMLD_init ::
  "mld_config \<Rightarrow> mpas_climatology_task \<Rightarrow> mpas_climatology_task option \<Rightarrow>
     (py_exception \<times> ctor_state) + ctor_state" where
  "ClimatologyMapMLD_init config mpasClimatologyTask mpasRefClimatologyTask =
     (let st0 = initial_state;
          sectionName = taskName (task st0);
          seasons = cfg_seasons config
      in if length seasons = 0 then
           Inl (PyExc ''ValueError''
                  (''config section '' @ sectionName @
                   '' does not contain valid list of seasons''), st0)
         else
           let comparisonGridNames = cfg_comparisonGrids config
           in if length comparisonGridNames = 0 then
                Inl (PyExc ''ValueError''
                       (''config section '' @ sectionName @
                        '' does not contain valid list of comparison grids''), st0)
              else
                let remapClimatologySubtask =
                      RemapMpasClimatologySubtask mpasClimatologyTask mld_fieldName
                        [mld_mpasFieldName] comparisonGridNames seasons mld_iselValues;
                    st1 = construct remapClimatologySubtask st0;
                    (c, st2) = choose_comparison config mpasRefClimatologyTask seasons
                                 comparisonGridNames st1
                in Inr (grid_loop remapClimatologySubtask c comparisonGridNames seasons st2))"

text \<open>Observations of a state.\<close>

fun is_plot :: "subtask \<Rightarrow> bool" where
  "is_plot (PlotClimatologyMapSubtask _ _ _ _ _ _) = True"
| "is_plot _ = False"

fun is_remap_mpas :: "subtask \<Rightarrow> bool" where
  "is_remap_mpas (RemapMpasClimatologySubtask _ _ _ _ _ _) = True"
| "is_remap_mpas _ = False"

fun is_remap_obs :: "subtask \<Rightarrow> bool" where
  "is_remap_obs (RemapObservedMLDClimatology _ _ _ _) = True"
| "is_remap_obs _ = False"

fun is_remap_ref :: "subtask \<Rightarrow> bool" where
  "is_remap_ref (RemapMpasReferenceClimatologySubtask _ _ _ _ _ _) = True"
| "is_remap_ref _ = False"


section \<open>The observational data set (\<open>RemapObservedMLDClimatology\<close>)\<close>

subsection \<open>Data sets\<close>




text \<open>Sequencing of steps that can raise.\<close>

definition and_then :: "'e + 'a \<Rightarrow> ('a \<Rightarrow> 'e + 'b) \<Rightarrow> 'e + 'b" where
  "and_then m f = (case m of Inl e \<Rightarrow> Inl e | Inr x \<Rightarrow> f x)"


















subsection \<open>\<open>build_observational_dataset\<close>\<close>

text \<open>
  The argument is the data set \<open>xr.open_dataset(fileName)\<close> returns. The steps
  follow the source line by line.
\<close>





subsection \<open>The observational file\<close>



section \<open>The provenance writer (shared/html/image\_xml.py)\<close>

subsection \<open>Effects\<close>

text \<open>
  A function that acts on the outside world returns the list of the effects it has
  carried out, in order, and either the exception that ended it or its value.
\<close>

type_synonym ('f, 'a) io = "'f list \<times> (py_exception + 'a)"

definition io_bind :: "('f, 'a) io \<Rightarrow> ('a \<Rightarrow> ('f, 'b) io) \<Rightarrow> ('f, 'b) io" where
  "io_bind m f =
     (case m of
        (es, Inl e) \<Rightarrow> (es, Inl e)
      | (es, Inr x) \<Rightarrow> (case f x of (es', r) \<Rightarrow> (es @ es', r)))"

definition io_lift :: "py_exception + 'a \<Rightarrow> ('f, 'a) io" where
  "io_lift r = ([], r)"

subsection \<open>Images\<close>

text \<open>
  A PIL image is described by how it was made: opened from a file (with its size,
  width first), resized, or cropped to a box \<open>(left, upper, right, lower)\<close>.
  Python's floats are idealised as rationals.
\<close>

datatype image =
    ImageFile "int \<times> int"
  | Resized image "int \<times> int"
  | Cropped image "int \<times> int \<times> int \<times> int"

fun image_size :: "image \<Rightarrow> int \<times> int" where
  "image_size (ImageFile sz) = sz"
| "image_size (Resized im sz) = sz"
| "image_size (Cropped im (left, upper, right, lower)) = (right - left, lower - upper)"

text \<open>Python's \<open>int(x)\<close> on a float: towards zero.\<close>

definition py_int :: "rat \<Rightarrow> int" where
  "py_int x = (if 0 \<le> x then \<lfloor>x\<rfloor> else \<lceil>x\<rceil>)"

text \<open>\<open>[int(dim/factor + 0.5) for dim in image.size]\<close>.\<close>

definition scaled_size :: "int \<times> int \<Rightarrow> rat \<Rightarrow> py_exception + int \<times> int" where
  "scaled_size sz factor =
     (if factor = 0 then Inl (PyExc ''ZeroDivisionError'' ''float division by zero'')
      else Inr (py_int (of_int (fst sz) / factor + 1 / 2),
                py_int (of_int (snd sz) / factor + 1 / 2)))"

subsection \<open>The world\<close>

type_synonym xml = "(string \<times> string option) list"

datatype effect =
    MakeDirs string
  | CopyFile string string
  | SaveImage string image
  | WriteXml string xml

text \<open>
  What the function reads from its surroundings: three values of the
  configuration (\<open>build_config_full_path\<close> and the parser belong to other
  modules), the process's own data, and the outcome of each call that leaves the
  program: whether an effect raises, the size of the image a file holds, and what
  starting a subprocess gives (an exception when it cannot be started, else
  return code, standard output and standard error).
\<close>

record world =
  w_plotsDirectory :: string
  w_htmlBaseDirectory :: string
  w_generateHTML :: bool
  w_argv :: "string list"
  w_cwd :: string
  w_user :: "string option"
  w_curtime :: string
  w_hostname :: string
  w_fails :: "effect \<Rightarrow> py_exception option"
  w_image_open :: "string \<Rightarrow> py_exception + int \<times> int"
  w_popen :: "string list \<Rightarrow> py_exception + int \<times> string \<times> string"

definition perform :: "world \<Rightarrow> effect \<Rightarrow> (effect, unit) io" where
  "perform w eff =
     (case w_fails w eff of
        Some e \<Rightarrow> ([], Inl e)
      | None \<Rightarrow> ([eff], Inr ()))"

text \<open>The classes \<open>except OSError\<close> catches: \<open>OSError\<close> and its subclasses.\<close>

definition is_OSError :: "py_exception \<Rightarrow> bool" where
  "is_OSError e =
     (exc_class e \<in> set [''OSError'', ''FileExistsError'', ''FileNotFoundError'',
                         ''PermissionError'', ''NotADirectoryError'', ''IsADirectoryError''])"

text \<open>\<open>try: ... except OSError: pass\<close>.\<close>

definition try_except_OSError_pass :: "(effect, unit) io \<Rightarrow> (effect, unit) io" where
  "try_except_OSError_pass m =
     (case m of
        (es, Inl e) \<Rightarrow> if is_OSError e then (es, Inr ()) else (es, Inl e)
      | (es, Inr x) \<Rightarrow> (es, Inr x))"

subsection \<open>Strings\<close>

fun join :: "string \<Rightarrow> string list \<Rightarrow> string" where
  "join sep [] = []"
| "join sep [x] = x"
| "join sep (x # y # ys) = x @ sep @ join sep (y # ys)"

definition strip_newlines :: "string \<Rightarrow> string" where
  "strip_newlines s =
     rev (dropWhile (\<lambda>c. c = CHR 0x0A) (rev (dropWhile (\<lambda>c. c = CHR 0x0A) s)))"

fun str_nat :: "nat \<Rightarrow> string" where
  "str_nat n =
     (if n < 10 then [char_of (48 + n)]
      else str_nat (n div 10) @ [char_of (48 + n mod 10)])"

definition str_int :: "int \<Rightarrow> string" where
  "str_int i = (if i < 0 then ''-'' @ str_nat (nat (- i)) else str_nat (nat i))"

subsection \<open>\<open>_provenance_command\<close>\<close>

text \<open>
  The root element is the list of its children, each a tag and a text; \<open>SubElement\<close>
  appends one. \<open>stdout.strip('\n')\<close> is read as on a Python 2 string.
\<close>

definition provenance_command :: "world \<Rightarrow> xml \<Rightarrow> string option \<Rightarrow> (effect, xml) io" where
  "provenance_command w rootEl history =
     (let call = join '' '' (w_argv w);
          history' = (case history of None \<Rightarrow> call | Some h \<Rightarrow> call @ ''; '' @ h);
          root1 = rootEl @ [(''history'', Some history'),
                          (''cwd'', Some (w_cwd w)),
                          (''user'', w_user w),
                          (''curtime'', Some (w_curtime w)),
                          (''host'', Some (w_hostname w))]
      in case w_popen w [''git'', ''describe'', ''--always'', ''--dirty''] of
           Inl e \<Rightarrow> ([], Inl e)
         | Inr (returncode, stdout, stderr) \<Rightarrow>
             (let githash = (if returncode = 0 then strip_newlines stdout
                             else ''git hash unavailable'')
              in ([], Inr (root1 @ [(''githash'', Some githash)]))))"

subsection \<open>\<open>_generate_thumbnails\<close>\<close>

definition fixedWidth :: int where
  "fixedWidth = 480"

definition fixedHeight :: int where
  "fixedHeight = 360"

text \<open>Lines 186 to 191: the orientation and the height of the first thumbnail.\<close>

definition orientation_of :: "int \<times> int \<Rightarrow> string \<times> int" where
  "orientation_of imageSize =
     (if fst imageSize < snd imageSize then (''vert'', 480) else (''horiz'', 180))"

text \<open>
  \<open>image.resize(size, Image.ANTIALIAS)\<close>: PIL refuses a size whose width or height is
  not positive.
\<close>

definition resize :: "image \<Rightarrow> int \<times> int \<Rightarrow> py_exception + image" where
  "resize im sz =
     (if fst sz \<le> 0 \<or> snd sz \<le> 0 then
        Inl (PyExc ''ValueError'' ''height and width must be > 0'')
      else Inr (Resized im sz))"

text \<open>Lines 194 to 196: the thumbnail with the same aspect ratio.\<close>

definition aspect_thumbnail :: "image \<Rightarrow> int \<Rightarrow> py_exception + image" where
  "aspect_thumbnail im thumbnailHeight =
     (let factor = of_int (snd (image_size im)) / of_int thumbnailHeight
      in and_then (scaled_size (image_size im) factor) (\<lambda>sz.
         resize im sz))"

text \<open>Lines 200 to 216: the thumbnail with a fixed size. Both branches crop the same box.\<close>

definition fixed_thumbnail :: "image \<Rightarrow> py_exception + image" where
  "fixed_thumbnail im =
     (let widthFactor = of_int (fst (image_size im)) / of_int fixedWidth;
          heightFactor = of_int (snd (image_size im)) / of_int fixedHeight;
          factor = min widthFactor heightFactor
      in and_then (scaled_size (image_size im) factor) (\<lambda>sz.
         and_then (resize im sz) (\<lambda>thumbnail.
           if widthFactor \<le> heightFactor then
             Inr (Cropped thumbnail (0, 0, fixedWidth, fixedHeight))
           else
             Inr (Cropped thumbnail (0, 0, fixedWidth, fixedHeight)))))"

definition generate_thumbnails ::
  "world \<Rightarrow> string \<Rightarrow> string \<Rightarrow> (effect, (int \<times> int) \<times> string) io" where
  "generate_thumbnails w imageFileName directory =
     io_bind (io_lift (w_image_open w (directory @ ''/'' @ imageFileName))) (\<lambda>imageSize.
       let im = ImageFile imageSize;
           thumbnailDir = directory @ ''/thumbnails'';
           (orientation, thumbnailHeight) = orientation_of imageSize
       in io_bind (io_lift (aspect_thumbnail im thumbnailHeight)) (\<lambda>thumbnail.
          io_bind (perform w (SaveImage (thumbnailDir @ ''/'' @ imageFileName) thumbnail)) (\<lambda>_.
          io_bind (io_lift (fixed_thumbnail im)) (\<lambda>thumbnail2.
          io_bind (perform w (SaveImage (thumbnailDir @ ''/fixed_'' @ imageFileName) thumbnail2)) (\<lambda>_.
          ([], Inr (imageSize, orientation)))))))"

text \<open>
  What a crop keeps of the image it is taken from: the top (all columns, the rows
  from the first on) or the left (all rows, the columns from the first on).
\<close>

fun cropped_from_top :: "image \<Rightarrow> bool" where
  "cropped_from_top (Cropped im (left, upper, right, lower)) =
     (left = 0 \<and> upper = 0 \<and> right = fst (image_size im) \<and> lower \<le> snd (image_size im))"
| "cropped_from_top _ = False"

fun cropped_from_left :: "image \<Rightarrow> bool" where
  "cropped_from_left (Cropped im (left, upper, right, lower)) =
     (left = 0 \<and> upper = 0 \<and> lower = snd (image_size im) \<and> right \<le> fst (image_size im))"
| "cropped_from_left _ = False"

subsection \<open>\<open>write_image_xml\<close>\<close>

record image_xml_args =
  ix_filePrefix :: string
  ix_componentName :: string
  ix_componentSubdirectory :: string
  ix_galleryGroup :: string
  ix_groupLink :: string
  ix_groupSubtitle :: "string option"
  ix_gallery :: "string option"
  ix_thumbnailDescription :: string
  ix_imageDescription :: string
  ix_imageCaption :: string
  ix_history :: "string option"
  ix_kwargs :: "(string \<times> string) list"

text \<open>Lines 106 to 126: the part under \<open>if generateHTML\<close>.\<close>

definition generate_html :: "world \<Rightarrow> image_xml_args \<Rightarrow> string \<Rightarrow> xml \<Rightarrow> (effect, xml) io" where
  "generate_html w a imageFileName rootEl =
     (let htmlBaseDirectory = w_htmlBaseDirectory w;
          componentDirectory = htmlBaseDirectory @ ''/'' @ ix_componentSubdirectory a;
          plotsDirectory = w_plotsDirectory w
      in io_bind (try_except_OSError_pass
                    (perform w (MakeDirs (componentDirectory @ ''/thumbnails'')))) (\<lambda>_.
         io_bind (perform w (CopyFile (plotsDirectory @ ''/'' @ imageFileName)
                               (componentDirectory @ ''/'' @ imageFileName))) (\<lambda>_.
         io_bind (generate_thumbnails w imageFileName componentDirectory)
           (\<lambda>(imageSize, orientation).
              ([], Inr (rootEl @ [(''imageSize'',
                                 Some (str_int (fst imageSize) @ ''x'' @ str_int (snd imageSize))),
                                (''orientation'', Some orientation)]))))))"

text \<open>Lines 83 to 103: the root element and its first children.\<close>

definition image_xml_root :: "image_xml_args \<Rightarrow> string \<Rightarrow> xml" where
  "image_xml_root a imageFileName =
     [(''imageFileName'', Some imageFileName),
      (''componentName'', Some (ix_componentName a)),
      (''componentSubdirectory'', Some (ix_componentSubdirectory a)),
      (''galleryGroup'', Some (ix_galleryGroup a))]
     @ (case ix_groupSubtitle a of None \<Rightarrow> [] | Some t \<Rightarrow> [(''groupSubtitle'', Some t)])
     @ [(''groupLink'', Some (ix_groupLink a))]
     @ (case ix_gallery a of None \<Rightarrow> [] | Some g \<Rightarrow> [(''gallery'', Some g)])
     @ [(''thumbnailDescription'', Some (ix_thumbnailDescription a)),
        (''imageDescription'', Some (ix_imageDescription a)),
        (''imageCaption'', Some (ix_imageCaption a))]"

definition write_image_xml :: "world \<Rightarrow> image_xml_args \<Rightarrow> (effect, unit) io" where
  "write_image_xml w a =
     (let imageFileName = ix_filePrefix a @ ''.png'';
          plotsDirectory = w_plotsDirectory w;
          xmlFileName = plotsDirectory @ ''/'' @ ix_filePrefix a @ ''.xml'';
          rootEl = image_xml_root a imageFileName;
          generateHTML = w_generateHTML w
      in io_bind (if generateHTML then generate_html w a imageFileName rootEl
                  else ([], Inr rootEl)) (\<lambda>root1.
         io_bind (provenance_command w root1 (ix_history a)) (\<lambda>root2.
           let root3 = root2 @ map (\<lambda>(key, value). (key, Some value)) (ix_kwargs a)
           in perform w (WriteXml xmlFileName root3))))"

subsection \<open>Example surroundings\<close>

text \<open>
  A world in which the thumbnails directory exists already (so that creating it
  fails), the plot is 1000 by 700 pixels, and \<open>git describe\<close> exits with code 128;
  and the same world with no \<open>git\<close> executable to start.
\<close>

definition demo_world :: world where
  "demo_world =
     \<lparr>w_plotsDirectory = ''/out/plots'',
      w_htmlBaseDirectory = ''/out/html'',
      w_generateHTML = True,
      w_argv = [''mpas_analysis'', ''config.cfg''],
      w_cwd = ''/home/user'',
      w_user = Some ''user'',
      w_curtime = ''11/04/26 09:00'',
      w_hostname = ''node1'',
      w_fails = (\<lambda>eff. if eff = MakeDirs ''/out/html/ocean/thumbnails''
                       then Some (PyExc ''OSError'' ''[Errno 17] File exists'') else None),
      w_image_open = (\<lambda>path. Inr (1000, 700)),
      w_popen = (\<lambda>cmd. Inr (128, [], ''fatal: not a git repository''))\<rparr>"

definition world_without_git :: world where
  "world_without_git =
     demo_world\<lparr>w_popen := (\<lambda>cmd. Inl (PyExc ''OSError'' ''[Errno 2] No such file or directory''))\<rparr>"

definition demo_args :: image_xml_args where
  "demo_args =
     \<lparr>ix_filePrefix = ''mld_ANN'',
      ix_componentName = ''Ocean'',
      ix_componentSubdirectory = ''ocean'',
      ix_galleryGroup = ''Mixed-Layer Depth'',
      ix_groupLink = ''mld'',
      ix_groupSubtitle = None,
      ix_gallery = Some ''Observations'',
      ix_thumbnailDescription = ''ANN'',
      ix_imageDescription = ''MLD ANN'',
      ix_imageCaption = ''Mean Mixed-Layer Depth'',
      ix_history = None,
      ix_kwargs = []\<rparr>"

section \<open>The 1-D plot renderer (shared/plot/oned.py)\<close>

subsection \<open>Titles\<close>

text \<open>
  Modelled from the spec: \<open>limit_title\<close> belongs to the module
  mpas\_analysis.shared.plot.title, whose source is missing. The spec has titles and legend labels ``truncated to a
  maximum display length with a trailing ellipsis if exceeded'', and a string at or
  under the limit unchanged: a longer string is cut so that, with the three dots,
  it has the maximum length.
\<close>

definition limit_title :: "string \<Rightarrow> nat \<Rightarrow> string" where
  "limit_title title max_title_length =
     (if length title > max_title_length
      then take (max_title_length - 3) title @ ''...''
      else title)"

subsection \<open>Arguments and calls\<close>

text \<open>
  The arrays are values of a type \<open>'a\<close> the model does not look into; \<open>None\<close> among
  them is told apart where the function tests for it. \<open>fieldArray + errArray\<close> and
  \<open>fieldArray - errArray\<close> are kept as expressions. Font sizes come as integers
  from the arguments and as strings from \<open>config.get\<close>.
\<close>

datatype fontsize = SizeInt int | SizeStr string

record plot_config =
  pc_defaultFontSize :: int
  pc_dpi :: int
  pc_titleFontSize :: string
  pc_axisFontSize :: string
  pc_titleFontColor :: string
  pc_titleFontWeight :: string

record 'a plot_args =
  xArrays :: "'a option list"
  fieldArrays :: "'a list"
  errArrays :: "'a option list"
  lineColors :: "string list option"
  lineStyles :: "string list option"
  markers :: "string option list option"
  lineWidths :: "rat list option"
  legendText :: "string option list option"
  title :: "string option"
  xlabel :: "string option"
  ylabel :: "string option"
  fileout :: "string option"
  figsize :: "rat \<times> rat"
  dpi :: "int option"
  xLim :: "rat list option"
  yLim :: "rat list option"
  invertYAxis :: bool
  maxTitleLength :: nat
  titleFontSize :: "int option"
  axisFontSize :: "int option"
  defaultFontSize :: "int option"

datatype 'a arr_expr = ArrAdd 'a 'a | ArrSub 'a 'a

text \<open>The calls to matplotlib (and to \<open>savefig\<close>), with their arguments.\<close>

datatype 'a plt_call =
    Rc_font int
  | Figure "rat \<times> rat" int
  | Plot 'a 'a (plot_color: string) (plot_linestyle: string) (plot_marker: "string option")
      (plot_linewidth: rat) (plot_label: "string option")
  | Fill_between 'a 'a "'a arr_expr" string rat
  | Grid
  | Axhline rat string string
  | Legend
  | Title string fontsize string string
  | Xlabel string fontsize
  | Ylabel string fontsize
  | Invert_yaxis
  | Xlim "rat list"
  | Ylim "rat list"
  | Savefig string
  | Close

subsection \<open>\<open>plot_1D\<close>\<close>

text \<open>\<open>xs[i]\<close> on a list.\<close>

definition index :: "'b list \<Rightarrow> nat \<Rightarrow> py_exception + 'b" where
  "index xs i =
     (if i < length xs then Inr (xs ! i)
      else Inl (PyExc ''IndexError'' ''list index out of range''))"

text \<open>\<open>dflt if xs is None else xs[i]\<close>.\<close>

definition index_or :: "'b \<Rightarrow> 'b list option \<Rightarrow> nat \<Rightarrow> py_exception + 'b" where
  "index_or dflt xs i = (case xs of None \<Rightarrow> Inr dflt | Some l \<Rightarrow> index l i)"

text \<open>
  Lines 119 to 155: the body of the loop for one \<open>dsIndex\<close>. It returns the calls it
  makes and the new value of \<open>plotLegend\<close>. All the indexing comes before the first
  call, so an \<open>IndexError\<close> leaves no call of this round behind.
\<close>

definition series_body ::
  "'a plot_args \<Rightarrow> nat \<Rightarrow> bool \<Rightarrow> py_exception + ('a plt_call list \<times> bool)" where
  "series_body a dsIndex plotLegend =
     and_then (index (xArrays a) dsIndex) (\<lambda>xArray.
     and_then (index (fieldArrays a) dsIndex) (\<lambda>fieldArray.
     and_then (index (errArrays a) dsIndex) (\<lambda>errArray.
       case xArray of
         None \<Rightarrow> Inr ([], plotLegend)
       | Some x \<Rightarrow>
           and_then (case legendText a of
                       None \<Rightarrow> Inr (None, plotLegend)
                     | Some lt \<Rightarrow>
                         and_then (index lt dsIndex) (\<lambda>label.
                           Inr (map_option (\<lambda>l. limit_title l (maxTitleLength a)) label,
                                True))) (\<lambda>(label, plotLegend').
           and_then (index_or ''k'' (lineColors a) dsIndex) (\<lambda>color.
           and_then (index_or None (markers a) dsIndex) (\<lambda>marker.
           and_then (index_or ''-'' (lineStyles a) dsIndex) (\<lambda>linestyle.
           and_then (index_or 1 (lineWidths a) dsIndex) (\<lambda>linewidth.
             Inr ([Plot x fieldArray color linestyle marker linewidth label] @
                  (case errArray of
                     None \<Rightarrow> []
                   | Some err \<Rightarrow>
                       [Fill_between x fieldArray (ArrAdd fieldArray err) color (1 / 5),
                        Fill_between x fieldArray (ArrSub fieldArray err) color (1 / 5)]),
                  plotLegend')))))))))"

text \<open>\<open>for dsIndex in range(len(xArrays))\<close>, over the indices still to visit.\<close>

primrec series_loop ::
  "'a plot_args \<Rightarrow> nat list \<Rightarrow> bool \<Rightarrow> ('a plt_call, bool) io" where
  "series_loop a [] plotLegend = ([], Inr plotLegend)"
| "series_loop a (dsIndex # rest) plotLegend =
     (case series_body a dsIndex plotLegend of
        Inl e \<Rightarrow> ([], Inl e)
      | Inr (calls, plotLegend') \<Rightarrow>
          (case series_loop a rest plotLegend' of (calls', r) \<Rightarrow> (calls @ calls', r)))"

text \<open>
  Lines 156 to 188: what follows the loop. \<open>if xLim:\<close> holds for a list that is
  neither \<open>None\<close> nor empty.
\<close>

definition finish_plot :: "plot_config \<Rightarrow> 'a plot_args \<Rightarrow> bool \<Rightarrow> 'a plt_call list" where
  "finish_plot config a plotLegend =
     (let titleFontSize' = (case titleFontSize a of
                              None \<Rightarrow> SizeStr (pc_titleFontSize config)
                            | Some n \<Rightarrow> SizeInt n);
          axisFontSize' = (case axisFontSize a of
                             None \<Rightarrow> SizeStr (pc_axisFontSize config)
                           | Some n \<Rightarrow> SizeInt n)
      in [Grid, Axhline 0 ''-'' ''k'']
         @ (if plotLegend \<and> length (xArrays a) > 1 then [Legend] else [])
         @ (case title a of
              None \<Rightarrow> []
            | Some t \<Rightarrow> [Title (limit_title t (maxTitleLength a)) titleFontSize'
                           (pc_titleFontColor config) (pc_titleFontWeight config)])
         @ (case xlabel a of None \<Rightarrow> [] | Some l \<Rightarrow> [Xlabel l axisFontSize'])
         @ (case ylabel a of None \<Rightarrow> [] | Some l \<Rightarrow> [Ylabel l axisFontSize'])
         @ (if invertYAxis a then [Invert_yaxis] else [])
         @ (case xLim a of None \<Rightarrow> [] | Some l \<Rightarrow> if l \<noteq> [] then [Xlim l] else [])
         @ (case yLim a of None \<Rightarrow> [] | Some l \<Rightarrow> if l \<noteq> [] then [Ylim l] else [])
         @ (case fileout a of None \<Rightarrow> [] | Some f \<Rightarrow> [Savefig f])
         @ [Close])"

definition plot_1D :: "plot_config \<Rightarrow> 'a plot_args \<Rightarrow> ('a plt_call, unit) io" where
  "plot_1D config a =
     (let defaultFontSize' = (case defaultFontSize a of
                                None \<Rightarrow> pc_defaultFontSize config
                              | Some n \<Rightarrow> n);
          dpi' = (case dpi a of None \<Rightarrow> pc_dpi config | Some n \<Rightarrow> n)
      in io_bind ([Rc_font defaultFontSize', Figure (figsize a) dpi'], Inr ()) (\<lambda>_.
         io_bind (series_loop a [0..<length (xArrays a)] False) (\<lambda>plotLegend.
           (finish_plot config a plotLegend, Inr ()))))"

text \<open>
  The call with one series taken out of the parallel input lists (of those that
  were given).
\<close>

definition remove_nth :: "nat \<Rightarrow> 'b list \<Rightarrow> 'b list" where
  "remove_nth i xs = take i xs @ drop (Suc i) xs"

definition remove_series :: "nat \<Rightarrow> 'a plot_args \<Rightarrow> 'a plot_args" where
  "remove_series i a =
     a\<lparr>xArrays := remove_nth i (xArrays a),
       fieldArrays := remove_nth i (fieldArrays a),
       errArrays := remove_nth i (errArrays a),
       lineColors := map_option (remove_nth i) (lineColors a),
       lineStyles := map_option (remove_nth i) (lineStyles a),
       markers := map_option (remove_nth i) (markers a),
       lineWidths := map_option (remove_nth i) (lineWidths a),
       legendText := map_option (remove_nth i) (legendText a)\<rparr>"

text \<open>The input lists are parallel: those given have one entry per series.\<close>

definition opt_length_is :: "nat \<Rightarrow> 'b list option \<Rightarrow> bool" where
  "opt_length_is n l = (case l of None \<Rightarrow> True | Some xs \<Rightarrow> length xs = n)"

definition parallel_lists :: "'a plot_args \<Rightarrow> bool" where
  "parallel_lists a =
     (let n = length (xArrays a)
      in length (fieldArrays a) = n \<and> length (errArrays a) = n \<and>
         opt_length_is n (lineColors a) \<and> opt_length_is n (lineStyles a) \<and>
         opt_length_is n (markers a) \<and> opt_length_is n (lineWidths a) \<and>
         opt_length_is n (legendText a))"

text \<open>The lines and error bands among the calls.\<close>

fun is_series_call :: "'a plt_call \<Rightarrow> bool" where
  "is_series_call (Plot _ _ _ _ _ _ _) = True"
| "is_series_call (Fill_between _ _ _ _ _) = True"
| "is_series_call _ = False"


text \<open>The title drawn and the labels of the lines drawn, in order; the legend box.\<close>

fun titles :: "'a plt_call list \<Rightarrow> string list" where
  "titles [] = []"
| "titles (Title t _ _ _ # cs) = t # titles cs"
| "titles (_ # cs) = titles cs"

fun labels :: "'a plt_call list \<Rightarrow> string option list" where
  "labels [] = []"
| "labels (Plot _ _ _ _ _ _ l # cs) = l # labels cs"
| "labels (_ # cs) = labels cs"

fun is_legend :: "'a plt_call \<Rightarrow> bool" where
  "is_legend Legend = True"
| "is_legend _ = False"

subsection \<open>Example calls\<close>

definition demo_plot_config :: plot_config where
  "demo_plot_config =
     \<lparr>pc_defaultFontSize = 10, pc_dpi = 200, pc_titleFontSize = ''16'',
      pc_axisFontSize = ''14'', pc_titleFontColor = ''black'',
      pc_titleFontWeight = ''normal''\<rparr>"

text \<open>Two series, the second with no x array, and a legend text for both.\<close>

definition demo_plot_args :: "rat list plot_args" where
  "demo_plot_args =
     \<lparr>xArrays = [Some [0, 1, 2], None],
      fieldArrays = [[5, 6, 7], []],
      errArrays = [Some [1, 1, 1], None],
      lineColors = Some [''r'', ''b''],
      lineStyles = None,
      markers = None,
      lineWidths = Some [2, 1],
      legendText = Some [Some ''model run with a long name'', Some ''observations''],
      title = Some ''Zonal mean'',
      xlabel = Some ''latitude'',
      ylabel = None,
      fileout = Some ''plot_1D.png'',
      figsize = (10, 4),
      dpi = None,
      xLim = None,
      yLim = Some [0, 10],
      invertYAxis = True,
      maxTitleLength = 12,
      titleFontSize = None,
      axisFontSize = Some 12,
      defaultFontSize = None\<rparr>"

text \<open>Three series, the second with no x array, and a legend text for each.\<close>

definition demo_plot_args3 :: "rat list plot_args" where
  "demo_plot_args3 =
     demo_plot_args
       \<lparr>xArrays := [Some [0, 1, 2], None, Some [0, 1, 2]],
        fieldArrays := [[5, 6, 7], [], [4, 4, 5]],
        errArrays := [Some [1, 1, 1], None, None],
        lineColors := Some [''r'', ''b'', ''k''],
        lineWidths := Some [2, 1, 1],
        legendText := Some [Some ''model run with a long name'', Some ''observations'',
                            Some ''reference'']\<rparr>"

section \<open>Properties of the analysis task\<close>

subsection \<open>The loops\<close>

lemma season_loop_state:
  "season_loop remap c g ss st =
     st\<lparr>task := (task st)\<lparr>subtasks := subtasks (task st) @ map (plot_subtask_for remap c g) ss\<rparr>,
        constructed := constructed st @ map (plot_subtask_for remap c g) ss\<rparr>"
  by (induction ss arbitrary: st) (simp_all add: add_subtask_def construct_def Let_def)

lemma grid_loop_state:
  "grid_loop remap c gs ss st =
     st\<lparr>task := (task st)\<lparr>subtasks := subtasks (task st) @
                     concat (map (\<lambda>g. map (plot_subtask_for remap c g) ss) gs)\<rparr>,
        constructed := constructed st @
                     concat (map (\<lambda>g. map (plot_subtask_for remap c g) ss) gs)\<rparr>"
  by (induction gs arbitrary: st) (simp_all add: season_loop_state)

lemma is_plot_plot_subtask_for:
  "is_plot (plot_subtask_for remap c g s)"
  "\<not> is_remap_mpas (plot_subtask_for remap c g s)"
  "\<not> is_remap_obs (plot_subtask_for remap c g s)"
  "\<not> is_remap_ref (plot_subtask_for remap c g s)"
  by (simp_all add: plot_subtask_for_def set_plot_info_def)

lemma plot_subtask_for_sel:
  "pl_comparisonGridName (plot_subtask_for remap c g s) = g"
  "pl_season (plot_subtask_for remap c g s) = s"
  "pl_remapMpasClimatologySubtask (plot_subtask_for remap c g s) = remap"
  "pl_remapObsClimatologySubtask (plot_subtask_for remap c g s) = remapObservationsSubtask c"
  "pl_refMpasClimatologySubtask (plot_subtask_for remap c g s) = remapRefClimatologySubtask c"
  by (simp_all add: plot_subtask_for_def set_plot_info_def)

lemma filter_plots:
  "filter is_plot (concat (map (\<lambda>g. map (plot_subtask_for remap c g) ss) gs)) =
     concat (map (\<lambda>g. map (plot_subtask_for remap c g) ss) gs)"
  "filter is_remap_mpas (concat (map (\<lambda>g. map (plot_subtask_for remap c g) ss) gs)) = []"
  "filter is_remap_obs (concat (map (\<lambda>g. map (plot_subtask_for remap c g) ss) gs)) = []"
  "filter is_remap_ref (concat (map (\<lambda>g. map (plot_subtask_for remap c g) ss) gs)) = []"
  by (induction gs) (simp_all add: is_plot_plot_subtask_for)

lemma grid_season_pairs:
  "map (\<lambda>p. (pl_comparisonGridName p, pl_season p))
     (concat (map (\<lambda>g. map (plot_subtask_for remap c g) ss) gs)) = List.product gs ss"
  by (induction gs) (simp_all add: comp_def plot_subtask_for_sel)

lemma length_plots:
  "length (concat (map (\<lambda>g. map (plot_subtask_for remap c g) ss) gs)) = length gs * length ss"
  by (induction gs) simp_all

lemma wiring_plots:
  "list_all (\<lambda>p. pl_remapObsClimatologySubtask p = remapObservationsSubtask c \<and>
                 pl_refMpasClimatologySubtask p = remapRefClimatologySubtask c \<and>
                 pl_remapMpasClimatologySubtask p = remap)
     (concat (map (\<lambda>g. map (plot_subtask_for remap c g) ss) gs))"
  by (induction gs) (auto simp: list_all_iff plot_subtask_for_sel)

subsection \<open>The constructor\<close>

lemma init_valid:
  assumes "cfg_seasons config \<noteq> []" and "cfg_comparisonGrids config \<noteq> []"
  shows "ClimatologyMapMLD_init config t r =
     (let remap = RemapMpasClimatologySubtask t mld_fieldName [mld_mpasFieldName]
                    (cfg_comparisonGrids config) (cfg_seasons config) mld_iselValues;
          (c, st2) = choose_comparison config r (cfg_seasons config)
                       (cfg_comparisonGrids config) (construct remap initial_state)
      in Inr (grid_loop remap c (cfg_comparisonGrids config) (cfg_seasons config) st2))"
  using assms by (simp add: ClimatologyMapMLD_init_def Let_def)

lemma init_returns_iff:
  "(\<exists>st. ClimatologyMapMLD_init config t r = Inr st) \<longleftrightarrow>
     cfg_seasons config \<noteq> [] \<and> cfg_comparisonGrids config \<noteq> []"
  by (auto simp: ClimatologyMapMLD_init_def Let_def split: prod.splits)

text \<open>
  C1, as amended. Whenever the \<open>seasons\<close> option or the \<open>comparisonGrids\<close> option of
  the section is an empty list, \<open>ClimatologyMapMLD.__init__\<close> fails with a
  \<open>ValueError\<close> (the class the source raises; it has no \<open>ConfigurationError\<close>), and
  at that point no subtask has been constructed and none has been registered.
\<close>

theorem init_empty_option_raises_ValueError:
  assumes "cfg_seasons config = [] \<or> cfg_comparisonGrids config = []"
  shows "\<exists>msg st. ClimatologyMapMLD_init config t r = Inl (PyExc ''ValueError'' msg, st) \<and>
           constructed st = [] \<and> subtasks (task st) = []"
  using assms by (auto simp: ClimatologyMapMLD_init_def Let_def initial_state_def)

theorem init_empty_option_raises_ValueError_witness:
  "\<exists>msg st. ClimatologyMapMLD_init
       \<lparr>cfg_seasons = [''JFM'', ''ANN''], cfg_comparisonGrids = [],
        cfg_observationsDirectory = ''/obs/mld''\<rparr>
       \<lparr>mainRunName = ''main''\<rparr> None = Inl (PyExc ''ValueError'' msg, st) \<and>
     constructed st = [] \<and> subtasks (task st) = []"
  using init_empty_option_raises_ValueError
    [of "\<lparr>cfg_seasons = [''JFM'', ''ANN''], cfg_comparisonGrids = [],
          cfg_observationsDirectory = ''/obs/mld''\<rparr>" "\<lparr>mainRunName = ''main''\<rparr>" None]
  by simp

text \<open>
  C1 as stated fails: with an empty list of seasons the exception raised is a
  \<open>ValueError\<close>, not a \<open>ConfigurationError\<close>.
\<close>

theorem init_empty_seasons_not_ConfigurationError:
  "(case ClimatologyMapMLD_init
           \<lparr>cfg_seasons = [], cfg_comparisonGrids = [''latlon''],
            cfg_observationsDirectory = ''/obs/mld''\<rparr>
           \<lparr>mainRunName = ''main''\<rparr> None of
      Inl (e, st) \<Rightarrow> exc_class e = ''ValueError'' \<and> exc_class e \<noteq> ''ConfigurationError''
    | Inr st \<Rightarrow> False)"
  by (simp add: ClimatologyMapMLD_init_def Let_def)

text \<open>
  C2. For a configuration whose lists of seasons and of comparison grids are not
  empty, the constructor returns, and the plot subtasks among the children of the
  task are one per pair of the cross-product, comparison grids outermost: N times M
  of them for N grids and M seasons.
\<close>

theorem init_registers_one_plot_per_pair:
  assumes "cfg_seasons config \<noteq> []" and "cfg_comparisonGrids config \<noteq> []"
  shows "\<exists>st. ClimatologyMapMLD_init config t r = Inr st \<and>
           map (\<lambda>p. (pl_comparisonGridName p, pl_season p))
             (filter is_plot (subtasks (task st))) =
             List.product (cfg_comparisonGrids config) (cfg_seasons config) \<and>
           length (filter is_plot (subtasks (task st))) =
             length (cfg_comparisonGrids config) * length (cfg_seasons config)"
proof (cases r)
  case None
  show ?thesis
    unfolding init_valid[OF assms] None
    by (simp add: Let_def choose_comparison_def grid_loop_state construct_def add_subtask_def
        initial_state_def filter_plots grid_season_pairs length_plots)
next
  case (Some refTask)
  show ?thesis
    unfolding init_valid[OF assms] Some
    by (simp add: Let_def choose_comparison_def grid_loop_state construct_def add_subtask_def
        initial_state_def filter_plots grid_season_pairs length_plots)
qed

theorem init_registers_one_plot_per_pair_witness:
  "\<exists>st. ClimatologyMapMLD_init
       \<lparr>cfg_seasons = [''JFM'', ''JAS'', ''ANN''], cfg_comparisonGrids = [''latlon'', ''antarctic''],
        cfg_observationsDirectory = ''/obs/mld''\<rparr>
       \<lparr>mainRunName = ''main''\<rparr> None = Inr st \<and>
     map (\<lambda>p. (pl_comparisonGridName p, pl_season p)) (filter is_plot (subtasks (task st))) =
       [(''latlon'', ''JFM''), (''latlon'', ''JAS''), (''latlon'', ''ANN''),
        (''antarctic'', ''JFM''), (''antarctic'', ''JAS''), (''antarctic'', ''ANN'')] \<and>
     length (filter is_plot (subtasks (task st))) = 6"
  using init_registers_one_plot_per_pair
    [of "\<lparr>cfg_seasons = [''JFM'', ''JAS'', ''ANN''],
          cfg_comparisonGrids = [''latlon'', ''antarctic''],
          cfg_observationsDirectory = ''/obs/mld''\<rparr>" "\<lparr>mainRunName = ''main''\<rparr>" None]
  by (simp add: eval_nat_numeral)

text \<open>
  C3. In every construction that returns a task, exactly one remap subtask for the
  primary run has been constructed, and exactly one of the two others: without a
  reference task, the remap subtask for the observations and none for a reference
  run, and every plot subtask is given the former and \<open>None\<close> for the latter; with a
  reference task, the remap subtask for the reference run and none for the
  observations, and every plot subtask is given \<open>None\<close> for the observations.
\<close>

theorem init_remap_subtasks_exclusive:
  assumes "ClimatologyMapMLD_init config t r = Inr st"
  shows "filter is_remap_mpas (constructed st) =
           [RemapMpasClimatologySubtask t mld_fieldName [mld_mpasFieldName]
              (cfg_comparisonGrids config) (cfg_seasons config) mld_iselValues] \<and>
         (case r of
            None \<Rightarrow>
              filter is_remap_obs (constructed st) =
                [RemapObservedMLDClimatology (cfg_seasons config)
                   (cfg_observationsDirectory config @ ''/holtetalley_mld_climatology.nc'')
                   ''mld'' (cfg_comparisonGrids config)] \<and>
              filter is_remap_ref (constructed st) = [] \<and>
              list_all (\<lambda>p. pl_remapObsClimatologySubtask p =
                               Some (RemapObservedMLDClimatology (cfg_seasons config)
                                 (cfg_observationsDirectory config @
                                    ''/holtetalley_mld_climatology.nc'')
                                 ''mld'' (cfg_comparisonGrids config)) \<and>
                             pl_refMpasClimatologySubtask p = None)
                (filter is_plot (subtasks (task st)))
          | Some refTask \<Rightarrow>
              filter is_remap_ref (constructed st) =
                [RemapMpasReferenceClimatologySubtask refTask mld_fieldName [mld_mpasFieldName]
                   (cfg_comparisonGrids config) (cfg_seasons config) mld_iselValues] \<and>
              filter is_remap_obs (constructed st) = [] \<and>
              list_all (\<lambda>p. pl_refMpasClimatologySubtask p =
                               Some (RemapMpasReferenceClimatologySubtask refTask mld_fieldName
                                 [mld_mpasFieldName] (cfg_comparisonGrids config)
                                 (cfg_seasons config) mld_iselValues) \<and>
                             pl_remapObsClimatologySubtask p = None)
                (filter is_plot (subtasks (task st))))"
proof -
  from assms have valid: "cfg_seasons config \<noteq> []" "cfg_comparisonGrids config \<noteq> []"
    using init_returns_iff[of config t r] by auto
  show ?thesis
  proof (cases r)
    case None
    from assms show ?thesis
      unfolding init_valid[OF valid] None
      using wiring_plots[of _ _ "cfg_seasons config" "cfg_comparisonGrids config"]
      by (auto simp: Let_def choose_comparison_def grid_loop_state construct_def
          add_subtask_def initial_state_def filter_plots list_all_iff)
  next
    case (Some refTask)
    from assms show ?thesis
      unfolding init_valid[OF valid] Some
      using wiring_plots[of _ _ "cfg_seasons config" "cfg_comparisonGrids config"]
      by (auto simp: Let_def choose_comparison_def grid_loop_state construct_def
          add_subtask_def initial_state_def filter_plots list_all_iff)
  qed
qed

theorem init_remap_subtasks_exclusive_witness:
  "\<exists>st. ClimatologyMapMLD_init
       \<lparr>cfg_seasons = [''JFM'', ''ANN''], cfg_comparisonGrids = [''latlon''],
        cfg_observationsDirectory = ''/obs/mld''\<rparr>
       \<lparr>mainRunName = ''main''\<rparr> (Some \<lparr>mainRunName = ''reference''\<rparr>) = Inr st \<and>
     filter is_remap_mpas (constructed st) =
       [RemapMpasClimatologySubtask \<lparr>mainRunName = ''main''\<rparr> ''mld''
          [''timeMonthly_avg_dThreshMLD''] [''latlon''] [''JFM'', ''ANN''] None] \<and>
     filter is_remap_ref (constructed st) =
       [RemapMpasReferenceClimatologySubtask \<lparr>mainRunName = ''reference''\<rparr> ''mld''
          [''timeMonthly_avg_dThreshMLD''] [''latlon''] [''JFM'', ''ANN''] None] \<and>
     filter is_remap_obs (constructed st) = []"
proof -
  obtain st where st: "ClimatologyMapMLD_init
       \<lparr>cfg_seasons = [''JFM'', ''ANN''], cfg_comparisonGrids = [''latlon''],
        cfg_observationsDirectory = ''/obs/mld''\<rparr>
       \<lparr>mainRunName = ''main''\<rparr> (Some \<lparr>mainRunName = ''reference''\<rparr>) = Inr st"
    using init_returns_iff
      [of "\<lparr>cfg_seasons = [''JFM'', ''ANN''], cfg_comparisonGrids = [''latlon''],
            cfg_observationsDirectory = ''/obs/mld''\<rparr>"
          "\<lparr>mainRunName = ''main''\<rparr>" "Some \<lparr>mainRunName = ''reference''\<rparr>"]
    by auto
  from init_remap_subtasks_exclusive[OF st] st show ?thesis
    by (simp add: mld_fieldName_def mld_mpasFieldName_def mld_iselValues_def)
qed

section \<open>Properties of the observational data set\<close>























section \<open>Properties of the provenance writer\<close>

subsection \<open>Thumbnails\<close>

lemma py_int_round_int: "py_int (of_int k + 1 / 2) = k" if "0 \<le> k"
proof -
  have "\<lfloor>(of_int k :: rat) + 1 / 2\<rfloor> = k" by linarith
  moreover have "0 \<le> (of_int k :: rat) + 1 / 2" using that by simp
  ultimately show ?thesis by (simp add: py_int_def)
qed

lemma py_int_round_ge: "k \<le> py_int (x + 1 / 2)" if "of_int k \<le> x" "0 \<le> k"
proof -
  have "0 \<le> x" using that by (smt (verit) of_int_0_le_iff order_trans)
  then have "py_int (x + 1 / 2) = \<lfloor>x + 1 / 2\<rfloor>" by (simp add: py_int_def)
  moreover have "k \<le> \<lfloor>x + 1 / 2\<rfloor>" using that by linarith
  ultimately show ?thesis by simp
qed

lemma py_int_round_pos: "0 < py_int (x + 1 / 2)" if "1 / 2 \<le> x"
proof -
  have "py_int (x + 1 / 2) = \<lfloor>x + 1 / 2\<rfloor>" using that by (simp add: py_int_def)
  moreover have "1 \<le> \<lfloor>x + 1 / 2\<rfloor>" using that by linarith
  ultimately show ?thesis by simp
qed

lemma py_int_round_zero: "py_int (x + 1 / 2) = 0" if "0 \<le> x" "x < 1 / 2"
proof -
  have "py_int (x + 1 / 2) = \<lfloor>x + 1 / 2\<rfloor>" using that by (simp add: py_int_def)
  moreover have "\<lfloor>x + 1 / 2\<rfloor> = 0" using that by linarith
  ultimately show ?thesis by simp
qed

text \<open>
  The first thumbnail is made when its width comes out positive, that is, when the
  image is not more than \<open>2 * thumbnailHeight\<close> times as high as wide.
\<close>

lemma aspect_thumbnail_height:
  assumes "0 < w" "0 < h" "0 < T" "h \<le> 2 * T * w"
  shows "\<exists>w'. 0 < w' \<and>
           aspect_thumbnail (ImageFile (w, h)) T = Inr (Resized (ImageFile (w, h)) (w', T))"
proof -
  have "(1 / 2 :: rat) \<le> of_int w / (of_int h / of_int T)"
  proof -
    have "(of_int h :: rat) \<le> of_int (2 * T * w)" using assms(4) by (simp only: of_int_le_iff)
    then show ?thesis using assms(1-3) by (simp add: field_simps)
  qed
  then have "0 < py_int (of_int w / (of_int h / of_int T) + 1 / 2)"
    by (rule py_int_round_pos)
  moreover have "py_int (of_int h / (of_int h / of_int T) + 1 / 2) = T"
    using assms py_int_round_int[of T] by simp
  ultimately show ?thesis
    using assms
    by (simp add: aspect_thumbnail_def scaled_size_def resize_def and_then_def Let_def)
qed

lemma aspect_thumbnail_narrow:
  assumes "0 < w" "0 < h" "0 < T" "2 * T * w < h"
  shows "aspect_thumbnail (ImageFile (w, h)) T =
           Inl (PyExc ''ValueError'' ''height and width must be > 0'')"
proof -
  have "(of_int w :: rat) / (of_int h / of_int T) < 1 / 2"
  proof -
    have "(of_int (2 * T * w) :: rat) < of_int h" using assms(4) by (simp only: of_int_less_iff)
    then show ?thesis using assms(1-3) by (simp add: field_simps)
  qed
  moreover have "0 \<le> (of_int w :: rat) / (of_int h / of_int T)"
    using assms by simp
  ultimately have "py_int (of_int w / (of_int h / of_int T) + 1 / 2) = 0"
    by (intro py_int_round_zero)
  then show ?thesis
    using assms
    by (simp add: aspect_thumbnail_def scaled_size_def resize_def and_then_def Let_def)
qed

lemma fixed_thumbnail_top:
  assumes "0 < w" "0 < h"
    and "(of_int w :: rat) / of_int fixedWidth \<le> of_int h / of_int fixedHeight"
  shows "\<exists>h'. fixedHeight \<le> h' \<and> fixed_thumbnail (ImageFile (w, h)) =
           Inr (Cropped (Resized (ImageFile (w, h)) (fixedWidth, h')) (0, 0, fixedWidth, fixedHeight))"
proof -
  have le: "(360::rat) \<le> of_int h / (of_int w / 480)"
    using assms by (simp add: fixedWidth_def fixedHeight_def field_simps)
  have "360 \<le> py_int (of_int h / (of_int w / 480) + 1 / 2)"
    using py_int_round_ge[of 360 "of_int h / (of_int w / 480)"] le by simp
  moreover have "py_int (of_int w / (of_int w / 480) + 1 / 2) = 480"
    using py_int_round_int[of 480] assms by simp
  ultimately show ?thesis
    using assms
    by (simp add: fixed_thumbnail_def scaled_size_def resize_def and_then_def Let_def
        fixedWidth_def fixedHeight_def min_def)
qed

lemma fixed_thumbnail_left:
  assumes "0 < w" "0 < h"
    and "(of_int h :: rat) / of_int fixedHeight < of_int w / of_int fixedWidth"
  shows "\<exists>w'. fixedWidth \<le> w' \<and> fixed_thumbnail (ImageFile (w, h)) =
           Inr (Cropped (Resized (ImageFile (w, h)) (w', fixedHeight)) (0, 0, fixedWidth, fixedHeight))"
proof -
  have le: "(480::rat) \<le> of_int w / (of_int h / 360)"
    using assms by (simp add: fixedWidth_def fixedHeight_def field_simps)
  have "480 \<le> py_int (of_int w / (of_int h / 360) + 1 / 2)"
    using py_int_round_ge[of 480 "of_int w / (of_int h / 360)"] le by simp
  moreover have "py_int (of_int h / (of_int h / 360) + 1 / 2) = 360"
    using py_int_round_int[of 360] assms by simp
  ultimately show ?thesis
    using assms
    by (simp add: fixed_thumbnail_def scaled_size_def resize_def and_then_def Let_def
        fixedWidth_def fixedHeight_def min_def)
qed

lemma generate_thumbnails_ok:
  assumes op: "w_image_open world (directory @ ''/'' @ f) = Inr (w, h)"
    and pos: "0 < w" "0 < h"
    and wide: "h \<le> 960 * w"
    and s1: "\<And>t. w_fails world (SaveImage ((directory @ ''/thumbnails'') @ ''/'' @ f) t) = None"
    and s2: "\<And>t. w_fails world (SaveImage ((directory @ ''/thumbnails'') @ ''/fixed_'' @ f) t) = None"
  shows "\<exists>t1 t2.
           aspect_thumbnail (ImageFile (w, h)) (snd (orientation_of (w, h))) = Inr t1 \<and>
           fixed_thumbnail (ImageFile (w, h)) = Inr t2 \<and>
           generate_thumbnails world f directory =
             ([SaveImage ((directory @ ''/thumbnails'') @ ''/'' @ f) t1,
               SaveImage ((directory @ ''/thumbnails'') @ ''/fixed_'' @ f) t2],
              Inr ((w, h), fst (orientation_of (w, h))))"
proof -
  have T: "0 < snd (orientation_of (w, h))" by (simp add: orientation_of_def)
  have "h \<le> 2 * snd (orientation_of (w, h)) * w"
    using pos wide by (simp add: orientation_of_def)
  from aspect_thumbnail_height[OF pos T this] obtain t1 where
    t1: "aspect_thumbnail (ImageFile (w, h)) (snd (orientation_of (w, h))) = Inr t1" by blast
  obtain t2 where t2: "fixed_thumbnail (ImageFile (w, h)) = Inr t2"
    using fixed_thumbnail_top[OF pos] fixed_thumbnail_left[OF pos]
    by (cases "(of_int w :: rat) / of_int fixedWidth \<le> of_int h / of_int fixedHeight") force+
  show ?thesis
    using t1 t2 op s1 s2
    by (simp add: generate_thumbnails_def io_bind_def io_lift_def perform_def Let_def
        case_prod_beta del: append_assoc)
qed

text \<open>
  An image more than 960 times as high as wide: the width of the first thumbnail
  comes out as 0, \<open>image.resize\<close> raises at line 196, and nothing is saved.
\<close>

lemma generate_thumbnails_narrow_image_raises:
  assumes op: "w_image_open world (directory @ ''/'' @ f) = Inr (w, h)"
    and pos: "0 < w" "0 < h"
    and narrow: "960 * w < h"
  shows "generate_thumbnails world f directory =
           ([], Inl (PyExc ''ValueError'' ''height and width must be > 0''))"
proof -
  have o: "orientation_of (w, h) = (''vert'', 480)"
    using pos narrow by (simp add: orientation_of_def)
  have "aspect_thumbnail (ImageFile (w, h)) 480 =
          Inl (PyExc ''ValueError'' ''height and width must be > 0'')"
    using pos narrow by (intro aspect_thumbnail_narrow) simp_all
  then show ?thesis
    using op o
    by (simp add: generate_thumbnails_def io_bind_def io_lift_def Let_def)
qed

text \<open>
  C5, as amended. For an image of positive size that is opened, whose thumbnails are
  made (its height is at most 960 times its width, so that line 196 does not raise)
  and can be saved, the fixed thumbnail measures exactly 480 by 360 pixels. When the
  width factor (width over 480) is at most the height factor (height over 360), that
  is, when the image is at least as tall as the fixed aspect, it is cropped from the
  top of the rescaled image; when the image is wider than the fixed aspect, it is
  cropped from the left.
\<close>

theorem generate_thumbnails_fixed_crop:
  assumes "w_image_open world (directory @ ''/'' @ f) = Inr (w, h)"
    and "0 < w" and "0 < h" and "h \<le> 960 * w"
    and "\<And>t. w_fails world (SaveImage ((directory @ ''/thumbnails'') @ ''/'' @ f) t) = None"
    and "\<And>t. w_fails world (SaveImage ((directory @ ''/thumbnails'') @ ''/fixed_'' @ f) t) = None"
  shows "\<exists>t1 t2 orientation.
           generate_thumbnails world f directory =
             ([SaveImage ((directory @ ''/thumbnails'') @ ''/'' @ f) t1,
               SaveImage ((directory @ ''/thumbnails'') @ ''/fixed_'' @ f) t2],
              Inr ((w, h), orientation)) \<and>
           image_size t2 = (fixedWidth, fixedHeight) \<and>
           ((of_int w :: rat) / of_int fixedWidth \<le> of_int h / of_int fixedHeight
              \<longrightarrow> cropped_from_top t2) \<and>
           ((of_int h :: rat) / of_int fixedHeight < of_int w / of_int fixedWidth
              \<longrightarrow> cropped_from_left t2)"
proof -
  from generate_thumbnails_ok[OF assms] obtain t1 t2 where
    t2: "fixed_thumbnail (ImageFile (w, h)) = Inr t2"
    and g: "generate_thumbnails world f directory =
             ([SaveImage ((directory @ ''/thumbnails'') @ ''/'' @ f) t1,
               SaveImage ((directory @ ''/thumbnails'') @ ''/fixed_'' @ f) t2],
              Inr ((w, h), fst (orientation_of (w, h))))"
    by blast
  have "image_size t2 = (fixedWidth, fixedHeight) \<and>
        ((of_int w :: rat) / of_int fixedWidth \<le> of_int h / of_int fixedHeight
              \<longrightarrow> cropped_from_top t2) \<and>
        ((of_int h :: rat) / of_int fixedHeight < of_int w / of_int fixedWidth
              \<longrightarrow> cropped_from_left t2)"
  proof (cases "(of_int w :: rat) / of_int fixedWidth \<le> of_int h / of_int fixedHeight")
    case True
    from fixed_thumbnail_top[OF assms(2,3) True] t2 True show ?thesis by auto
  next
    case False
    then have lt: "(of_int h :: rat) / of_int fixedHeight < of_int w / of_int fixedWidth" by simp
    from fixed_thumbnail_left[OF assms(2,3) lt] t2 lt show ?thesis by auto
  qed
  with g show ?thesis by blast
qed

theorem generate_thumbnails_fixed_crop_witness:
  "\<exists>t1 t2 orientation. generate_thumbnails demo_world ''mld_ANN.png'' ''/out/html/ocean'' =
      ([SaveImage ''/out/html/ocean/thumbnails/mld_ANN.png'' t1,
        SaveImage ''/out/html/ocean/thumbnails/fixed_mld_ANN.png'' t2],
       Inr ((1000, 700), orientation)) \<and>
     image_size t2 = (480, 360) \<and> cropped_from_left t2"
  using generate_thumbnails_fixed_crop[of demo_world "''/out/html/ocean''" "''mld_ANN.png''" 1000 700]
  by (simp add: demo_world_def fixedWidth_def fixedHeight_def)

text \<open>
  C5 as stated fails: an image of 480 by 720 pixels is taller than the fixed aspect,
  and its fixed thumbnail keeps the top of the rescaled image, not its left.
\<close>

theorem fixed_thumbnail_tall_image_not_from_left:
  "(of_int 480 :: rat) / of_int fixedWidth < of_int 720 / of_int fixedHeight \<and>
   (case fixed_thumbnail (ImageFile (480, 720)) of
      Inl e \<Rightarrow> False
    | Inr t \<Rightarrow> cropped_from_top t \<and> \<not> cropped_from_left t)"
  by code_simp

text \<open>
  C10. For an image of positive size that is opened, whose thumbnails are made (its
  height is at most 960 times its width, so that line 196 does not raise) and can be
  saved, the orientation returned is \<open>vert\<close> exactly when the width is less than the
  height (so \<open>horiz\<close> for a square image), and the thumbnail with the image's aspect
  ratio is 480 pixels high for \<open>vert\<close> and 180 pixels high for \<open>horiz\<close>.
\<close>

theorem generate_thumbnails_orientation:
  assumes "w_image_open world (directory @ ''/'' @ f) = Inr (w, h)"
    and "0 < w" and "0 < h" and "h \<le> 960 * w"
    and "\<And>t. w_fails world (SaveImage ((directory @ ''/thumbnails'') @ ''/'' @ f) t) = None"
    and "\<And>t. w_fails world (SaveImage ((directory @ ''/thumbnails'') @ ''/fixed_'' @ f) t) = None"
  shows "\<exists>t1 t2.
           generate_thumbnails world f directory =
             ([SaveImage ((directory @ ''/thumbnails'') @ ''/'' @ f) t1,
               SaveImage ((directory @ ''/thumbnails'') @ ''/fixed_'' @ f) t2],
              Inr ((w, h), if w < h then ''vert'' else ''horiz'')) \<and>
           0 < fst (image_size t1) \<and>
           snd (image_size t1) = (if w < h then 480 else 180)"
proof -
  from generate_thumbnails_ok[OF assms] obtain t1 t2 where
    t1: "aspect_thumbnail (ImageFile (w, h)) (snd (orientation_of (w, h))) = Inr t1"
    and g: "generate_thumbnails world f directory =
             ([SaveImage ((directory @ ''/thumbnails'') @ ''/'' @ f) t1,
               SaveImage ((directory @ ''/thumbnails'') @ ''/fixed_'' @ f) t2],
              Inr ((w, h), fst (orientation_of (w, h))))"
    by blast
  have T: "0 < snd (orientation_of (w, h))" by (simp add: orientation_of_def)
  have "h \<le> 2 * snd (orientation_of (w, h)) * w"
    using assms(2-4) by (simp add: orientation_of_def)
  from aspect_thumbnail_height[OF assms(2,3) T this] t1
  have "0 < fst (image_size t1) \<and> snd (image_size t1) = snd (orientation_of (w, h))" by auto
  with g show ?thesis by (auto simp: orientation_of_def)
qed

theorem generate_thumbnails_orientation_witness:
  "\<exists>t1 t2. generate_thumbnails demo_world ''mld_ANN.png'' ''/out/html/ocean'' =
      ([SaveImage ''/out/html/ocean/thumbnails/mld_ANN.png'' t1,
        SaveImage ''/out/html/ocean/thumbnails/fixed_mld_ANN.png'' t2],
       Inr ((1000, 700), ''horiz'')) \<and>
     0 < fst (image_size t1) \<and> snd (image_size t1) = 180"
  using generate_thumbnails_orientation[of demo_world "''/out/html/ocean''" "''mld_ANN.png''" 1000 700]
  by (simp add: demo_world_def)

subsection \<open>The revision of the sources\<close>

text \<open>
  The failure the source handles: when the \<open>git\<close> subprocess is started and exits
  with a return code other than zero, \<open>_provenance_command\<close> raises nothing and the
  last child of the root, \<open>githash\<close>, holds the text \<open>git hash unavailable\<close>.
\<close>

lemma provenance_command_nonzero_returncode:
  assumes "w_popen world [''git'', ''describe'', ''--always'', ''--dirty''] =
             Inr (returncode, out, err)"
    and "returncode \<noteq> 0"
  shows "\<exists>els. provenance_command world rootEl history =
           ([], Inr (rootEl @ els @ [(''githash'', Some ''git hash unavailable'')]))"
  using assms by (simp add: provenance_command_def Let_def)

lemma provenance_command_nonzero_returncode_example:
  "\<exists>els. provenance_command demo_world [] None =
     ([], Inr ([] @ els @ [(''githash'', Some ''git hash unavailable'')]))"
  using provenance_command_nonzero_returncode[of demo_world 128 "[]" "''fatal: not a git repository''" "[]" None]
  by (simp add: demo_world_def)

text \<open>
  C6. The source falls back to the placeholder when the lookup fails by its return
  code, but \<open>subprocess.Popen\<close> at line 160 stands outside any \<open>try\<close>: when the
  subprocess cannot be started (no \<open>git\<close> executable), its \<open>OSError\<close> reaches the
  caller and no \<open>githash\<close> is set, where the claim has the placeholder and no
  exception.
\<close>

theorem provenance_command_git_missing_raises:
  "provenance_command world_without_git [] None =
     ([], Inl (PyExc ''OSError'' ''[Errno 2] No such file or directory''))"
  by (simp add: provenance_command_def world_without_git_def demo_world_def)

subsection \<open>The thumbnails directory\<close>

lemma perform_other:
  "eff \<noteq> eff0 \<Longrightarrow> perform (world\<lparr>w_fails := (w_fails world)(eff0 := r)\<rparr>) eff = perform world eff"
  by (simp add: perform_def)

lemma generate_thumbnails_makedirs:
  "generate_thumbnails (world\<lparr>w_fails := (w_fails world)(MakeDirs d := r)\<rparr>) f directory =
     generate_thumbnails world f directory"
  by (simp add: generate_thumbnails_def perform_other)

lemma provenance_command_w_fails:
  "provenance_command (world\<lparr>w_fails := g\<rparr>) rootEl history =
     provenance_command world rootEl history"
  by (simp add: provenance_command_def)

lemma generate_html_two_worlds:
  assumes m1: "try_except_OSError_pass
                 (perform w1 (MakeDirs ((w_htmlBaseDirectory w1 @ ''/'' @ ix_componentSubdirectory a)
                    @ ''/thumbnails''))) = (es1, Inr ())"
    and m2: "try_except_OSError_pass
                 (perform w2 (MakeDirs ((w_htmlBaseDirectory w1 @ ''/'' @ ix_componentSubdirectory a)
                    @ ''/thumbnails''))) = (es2, Inr ())"
    and dirs: "w_htmlBaseDirectory w2 = w_htmlBaseDirectory w1"
      "w_plotsDirectory w2 = w_plotsDirectory w1"
    and cp: "\<And>x y. perform w2 (CopyFile x y) = perform w1 (CopyFile x y)"
    and th: "\<And>f d. generate_thumbnails w2 f d = generate_thumbnails w1 f d"
  shows "\<exists>es r. generate_html w1 a f r0 = (es1 @ es, r) \<and> generate_html w2 a f r0 = (es2 @ es, r)"
proof -
  define R where "R =
    io_bind (perform w1 (CopyFile (w_plotsDirectory w1 @ ''/'' @ f)
                 ((w_htmlBaseDirectory w1 @ ''/'' @ ix_componentSubdirectory a) @ ''/'' @ f))) (\<lambda>_.
       io_bind (generate_thumbnails w1 f (w_htmlBaseDirectory w1 @ ''/'' @ ix_componentSubdirectory a))
           (\<lambda>(imageSize, orientation).
              ([], Inr (r0 @ [(''imageSize'',
                                 Some (str_int (fst imageSize) @ ''x'' @ str_int (snd imageSize))),
                                (''orientation'', Some orientation)]))))"
  obtain es r where rest: "R = (es, r)" by (cases R)
  have g1: "generate_html w1 a f r0 =
          io_bind (try_except_OSError_pass
                 (perform w1 (MakeDirs ((w_htmlBaseDirectory w1 @ ''/'' @ ix_componentSubdirectory a)
                    @ ''/thumbnails'')))) (\<lambda>_. R)"
    unfolding generate_html_def Let_def R_def by (rule refl)
  have g2: "generate_html w2 a f r0 =
          io_bind (try_except_OSError_pass
                 (perform w2 (MakeDirs ((w_htmlBaseDirectory w1 @ ''/'' @ ix_componentSubdirectory a)
                    @ ''/thumbnails'')))) (\<lambda>_. R)"
    unfolding generate_html_def Let_def R_def dirs cp th by (rule refl)
  have "generate_html w1 a f r0 = (es1 @ es, r)"
    unfolding g1 m1 by (simp add: io_bind_def rest)
  moreover have "generate_html w2 a f r0 = (es2 @ es, r)"
    unfolding g2 m2 by (simp add: io_bind_def rest)
  ultimately show ?thesis by blast
qed

lemma io_bind_shift:
  "m = (es, r) \<Longrightarrow> m' = (e0 # es, r) \<Longrightarrow>
     snd (io_bind m k) = snd (io_bind m' k) \<and> e0 # fst (io_bind m k) = fst (io_bind m' k)"
proof (cases r)
  case (Inl e)
  assume "m = (es, r)" "m' = (e0 # es, r)"
  with Inl show ?thesis by (simp add: io_bind_def)
next
  case (Inr x)
  assume "m = (es, r)" "m' = (e0 # es, r)"
  moreover obtain es' r' where "k x = (es', r')" by (cases "k x")
  ultimately show ?thesis using Inr by (simp add: io_bind_def)
qed

text \<open>
  C8. When \<open>write_image_xml\<close> generates HTML and creating the thumbnails directory
  fails with an \<open>OSError\<close> (the directory exists already), the function goes on as if
  the directory had just been created: it ends as it does in the world where the
  creation succeeds, with the same effects after it.
\<close>

theorem write_image_xml_directory_exists:
  assumes gen: "w_generateHTML world"
    and d: "d = (w_htmlBaseDirectory world @ ''/'' @ ix_componentSubdirectory a) @ ''/thumbnails''"
    and ex: "w_fails world (MakeDirs d) = Some e" and os: "is_OSError e"
  shows "snd (write_image_xml world a) =
           snd (write_image_xml (world\<lparr>w_fails := (w_fails world)(MakeDirs d := None)\<rparr>) a) \<and>
         MakeDirs d # fst (write_image_xml world a) =
           fst (write_image_xml (world\<lparr>w_fails := (w_fails world)(MakeDirs d := None)\<rparr>) a)"
proof -
  define world' where "world' = world\<lparr>w_fails := (w_fails world)(MakeDirs d := None)\<rparr>"
  have m: "try_except_OSError_pass (perform world (MakeDirs d)) = ([], Inr ())"
    using ex os by (simp add: try_except_OSError_pass_def perform_def)
  have m': "try_except_OSError_pass (perform world' (MakeDirs d)) = ([MakeDirs d], Inr ())"
    by (simp add: try_except_OSError_pass_def perform_def world'_def)
  have dirs: "w_htmlBaseDirectory world' = w_htmlBaseDirectory world"
    "w_plotsDirectory world' = w_plotsDirectory world" "w_generateHTML world'"
    using gen by (simp_all add: world'_def)
  have cp: "perform world' (CopyFile x y) = perform world (CopyFile x y)" for x y
    by (simp add: world'_def perform_other)
  have wx: "perform world' (WriteXml x y) = perform world (WriteXml x y)" for x y
    by (simp add: world'_def perform_other)
  have th: "generate_thumbnails world' f dir = generate_thumbnails world f dir" for f dir
    by (simp add: world'_def generate_thumbnails_makedirs)
  have pc: "provenance_command world' r h = provenance_command world r h" for r h
    by (simp add: world'_def provenance_command_w_fails)
  have "\<exists>es r. generate_html world a f r0 = ([] @ es, r) \<and>
               generate_html world' a f r0 = ([MakeDirs d] @ es, r)" for f r0
    by (rule generate_html_two_worlds) (use m m' d dirs cp th in simp_all)
  then obtain es r where
    g: "generate_html world a (ix_filePrefix a @ ''.png'')
          (image_xml_root a (ix_filePrefix a @ ''.png'')) = (es, r)"
    and g': "generate_html world' a (ix_filePrefix a @ ''.png'')
          (image_xml_root a (ix_filePrefix a @ ''.png'')) = (MakeDirs d # es, r)"
    by fastforce
  have w1: "write_image_xml world a =
      io_bind (generate_html world a (ix_filePrefix a @ ''.png'')
                 (image_xml_root a (ix_filePrefix a @ ''.png''))) (\<lambda>root1.
         io_bind (provenance_command world root1 (ix_history a)) (\<lambda>root2.
           perform world (WriteXml (w_plotsDirectory world @ ''/'' @ ix_filePrefix a @ ''.xml'')
             (root2 @ map (\<lambda>(key, value). (key, Some value)) (ix_kwargs a)))))"
    using gen by (simp add: write_image_xml_def Let_def)
  have w2: "write_image_xml world' a =
      io_bind (generate_html world' a (ix_filePrefix a @ ''.png'')
                 (image_xml_root a (ix_filePrefix a @ ''.png''))) (\<lambda>root1.
         io_bind (provenance_command world root1 (ix_history a)) (\<lambda>root2.
           perform world (WriteXml (w_plotsDirectory world @ ''/'' @ ix_filePrefix a @ ''.xml'')
             (root2 @ map (\<lambda>(key, value). (key, Some value)) (ix_kwargs a)))))"
    using dirs(3) by (simp add: write_image_xml_def Let_def pc wx dirs(1,2))
  have "snd (write_image_xml world a) = snd (write_image_xml world' a) \<and>
         MakeDirs d # fst (write_image_xml world a) = fst (write_image_xml world' a)"
    unfolding w1 w2 by (rule io_bind_shift[OF g g'])
  then show ?thesis by (simp add: world'_def)
qed

theorem write_image_xml_directory_exists_witness:
  "snd (write_image_xml demo_world demo_args) = Inr () \<and>
   snd (write_image_xml demo_world demo_args) =
     snd (write_image_xml
            (demo_world\<lparr>w_fails := (w_fails demo_world)
               (MakeDirs ''/out/html/ocean/thumbnails'' := None)\<rparr>) demo_args) \<and>
   MakeDirs ''/out/html/ocean/thumbnails'' # fst (write_image_xml demo_world demo_args) =
     fst (write_image_xml
            (demo_world\<lparr>w_fails := (w_fails demo_world)
               (MakeDirs ''/out/html/ocean/thumbnails'' := None)\<rparr>) demo_args)"
proof -
  have r: "snd (write_image_xml demo_world demo_args) = Inr ()"
    by code_simp
  have h: "w_generateHTML demo_world"
    "''/out/html/ocean/thumbnails'' =
       (w_htmlBaseDirectory demo_world @ ''/'' @ ix_componentSubdirectory demo_args)
       @ ''/thumbnails''"
    "w_fails demo_world (MakeDirs ''/out/html/ocean/thumbnails'') =
       Some (PyExc ''OSError'' ''[Errno 17] File exists'')"
    "is_OSError (PyExc ''OSError'' ''[Errno 17] File exists'')"
    by (simp_all add: demo_world_def demo_args_def is_OSError_def)
  from write_image_xml_directory_exists[OF h] r show ?thesis
    by simp
qed

section \<open>Properties of the 1-D plot renderer\<close>

subsection \<open>Titles and labels\<close>

lemma labels_append: "labels (xs @ ys) = labels xs @ labels ys"
  by (induction xs rule: labels.induct) simp_all

lemma titles_append: "titles (xs @ ys) = titles xs @ titles ys"
  by (induction xs rule: titles.induct) simp_all

lemma series_body_calls:
  assumes "series_body a i pl = Inr (cs, pl')"
  shows "list_all is_series_call cs"
  using assms
  by (auto simp: series_body_def and_then_def index_def index_or_def
      split: if_splits option.splits sum.splits prod.splits)

lemma series_loop_calls:
  "series_loop a js pl = (cs, r) \<Longrightarrow> list_all is_series_call cs"
proof (induction js arbitrary: pl cs r)
  case Nil
  then show ?case by simp
next
  case (Cons j js)
  show ?case
  proof (cases "series_body a j pl")
    case (Inl e)
    with Cons.prems show ?thesis by simp
  next
    case (Inr p)
    obtain cs1 pl1 where p: "p = (cs1, pl1)" by (cases p)
    obtain cs2 r2 where l: "series_loop a js pl1 = (cs2, r2)" by (cases "series_loop a js pl1")
    from Cons.prems Inr p l have "cs = cs1 @ cs2" by simp
    moreover have "list_all is_series_call cs1" using series_body_calls Inr p by blast
    moreover have "list_all is_series_call cs2" using Cons.IH l by blast
    ultimately show ?thesis by simp
  qed
qed

lemma titles_series_calls: "list_all is_series_call cs \<Longrightarrow> titles cs = []"
  by (induction cs rule: titles.induct) simp_all

lemma legend_series_calls: "list_all is_series_call cs \<Longrightarrow> filter is_legend cs = []"
  by (induction cs rule: titles.induct) simp_all

lemma series_body_labels:
  assumes "series_body a i pl = Inr (cs, pl')"
  shows "labels cs =
           (case xArrays a ! i of
              None \<Rightarrow> []
            | Some x \<Rightarrow>
                [case legendText a of
                   None \<Rightarrow> None
                 | Some lt \<Rightarrow> map_option (\<lambda>l. limit_title l (maxTitleLength a)) (lt ! i)])"
  using assms
  by (auto simp: series_body_def and_then_def index_def index_or_def
      split: if_splits option.splits sum.splits prod.splits)

lemma series_loop_labels:
  "series_loop a js pl = (cs, Inr pl') \<Longrightarrow>
     labels cs =
       map (\<lambda>i. case legendText a of
                   None \<Rightarrow> None
                 | Some lt \<Rightarrow> map_option (\<lambda>l. limit_title l (maxTitleLength a)) (lt ! i))
         (filter (\<lambda>i. xArrays a ! i \<noteq> None) js)"
proof (induction js arbitrary: pl cs)
  case Nil
  then show ?case by simp
next
  case (Cons j js)
  show ?case
  proof (cases "series_body a j pl")
    case (Inl e)
    with Cons.prems show ?thesis by simp
  next
    case (Inr p)
    obtain cs1 pl1 where p: "p = (cs1, pl1)" by (cases p)
    obtain cs2 r2 where l: "series_loop a js pl1 = (cs2, r2)" by (cases "series_loop a js pl1")
    from Cons.prems Inr p l have cs: "cs = cs1 @ cs2" and r2: "r2 = Inr pl'" by simp_all
    have "labels cs1 =
           (case xArrays a ! j of
              None \<Rightarrow> []
            | Some x \<Rightarrow>
                [case legendText a of
                   None \<Rightarrow> None
                 | Some lt \<Rightarrow> map_option (\<lambda>l. limit_title l (maxTitleLength a)) (lt ! j)])"
      using series_body_labels Inr p by blast
    moreover have "labels cs2 =
       map (\<lambda>i. case legendText a of
                   None \<Rightarrow> None
                 | Some lt \<Rightarrow> map_option (\<lambda>l. limit_title l (maxTitleLength a)) (lt ! i))
         (filter (\<lambda>i. xArrays a ! i \<noteq> None) js)"
      using Cons.IH l r2 by blast
    ultimately show ?thesis
      by (simp add: cs labels_append split: option.splits)
  qed
qed

lemma titles_finish_plot:
  "titles (finish_plot config a pl) =
     (case title a of None \<Rightarrow> [] | Some t \<Rightarrow> [limit_title t (maxTitleLength a)])"
  by (simp add: finish_plot_def Let_def titles_append split: option.splits)

lemma labels_finish_plot: "labels (finish_plot config a pl) = []"
  by (simp add: finish_plot_def Let_def labels_append split: option.splits)

lemma plot_1D_result:
  assumes "plot_1D config a = (calls, Inr ())"
  shows "\<exists>cs pl. series_loop a [0..<length (xArrays a)] False = (cs, Inr pl) \<and>
           calls = [Rc_font (case defaultFontSize a of None \<Rightarrow> pc_defaultFontSize config
                              | Some n \<Rightarrow> n),
                    Figure (figsize a) (case dpi a of None \<Rightarrow> pc_dpi config | Some n \<Rightarrow> n)]
                   @ cs @ finish_plot config a pl"
proof -
  obtain cs r where l: "series_loop a [0..<length (xArrays a)] False = (cs, r)"
    by (cases "series_loop a [0..<length (xArrays a)] False")
  show ?thesis
  proof (cases r)
    case (Inl e)
    with assms l show ?thesis by (simp add: plot_1D_def io_bind_def Let_def)
  next
    case (Inr pl)
    with assms l show ?thesis by (simp add: plot_1D_def io_bind_def Let_def)
  qed
qed

text \<open>
  C7. In every call of \<open>plot_1D\<close> that returns, the title drawn is the title passed,
  and the label of each line drawn is the legend text of its series, each changed as
  follows: a string longer than \<open>maxTitleLength\<close> is cut and ends with three dots
  (its first \<open>maxTitleLength - 3\<close> characters followed by \<open>...\<close>), and a string of
  at most \<open>maxTitleLength\<close> characters is unchanged.
\<close>

theorem plot_1D_limits_title_and_labels:
  assumes "plot_1D config a = (calls, Inr ())"
  shows "titles calls =
           (case title a of
              None \<Rightarrow> []
            | Some t \<Rightarrow> [if length t > maxTitleLength a
                          then take (maxTitleLength a - 3) t @ ''...'' else t]) \<and>
         labels calls =
           map (\<lambda>i. case legendText a of
                       None \<Rightarrow> None
                     | Some lt \<Rightarrow>
                         map_option (\<lambda>l. if length l > maxTitleLength a
                                          then take (maxTitleLength a - 3) l @ ''...'' else l)
                           (lt ! i))
             (filter (\<lambda>i. xArrays a ! i \<noteq> None) [0..<length (xArrays a)])"
proof -
  from plot_1D_result[OF assms] obtain cs pl where
    l: "series_loop a [0..<length (xArrays a)] False = (cs, Inr pl)"
    and c: "calls = [Rc_font (case defaultFontSize a of None \<Rightarrow> pc_defaultFontSize config
                              | Some n \<Rightarrow> n),
                    Figure (figsize a) (case dpi a of None \<Rightarrow> pc_dpi config | Some n \<Rightarrow> n)]
                   @ cs @ finish_plot config a pl"
    by blast
  have t: "titles cs = []"
    using series_loop_calls[OF l] by (rule titles_series_calls)
  show ?thesis
    unfolding c
    by (simp add: titles_append labels_append t titles_finish_plot[unfolded limit_title_def]
        labels_finish_plot series_loop_labels[OF l, unfolded limit_title_def])
qed

theorem plot_1D_limits_title_and_labels_witness:
  "titles (fst (plot_1D demo_plot_config demo_plot_args)) = [''Zonal mean''] \<and>
   labels (fst (plot_1D demo_plot_config demo_plot_args)) = [Some ''model run...'']"
proof -
  have "snd (plot_1D demo_plot_config demo_plot_args) = Inr ()"
    by code_simp
  then have e: "plot_1D demo_plot_config demo_plot_args =
                  (fst (plot_1D demo_plot_config demo_plot_args), Inr ())"
    by (simp add: prod_eq_iff)
  from plot_1D_limits_title_and_labels[OF e] show ?thesis
    by (simp add: demo_plot_args_def upt_rec)
qed

subsection \<open>Series without an x array\<close>

lemma index_remove_nth:
  assumes "i < length xs" and "j < length xs - 1"
  shows "index (remove_nth i xs) j = index xs (if j < i then j else Suc j)"
  using assms by (auto simp: index_def remove_nth_def nth_append min_def)

lemma index_or_remove_nth:
  assumes "opt_length_is n l" and "i < n" and "j < n - 1"
  shows "index_or d (map_option (remove_nth i) l) j = index_or d l (if j < i then j else Suc j)"
  using assms
  by (cases l) (simp_all add: index_or_def opt_length_is_def index_remove_nth del: if_split cong: if_cong)

lemma series_body_remove_series:
  assumes p: "parallel_lists a" and i: "i < length (xArrays a)"
    and j: "j < length (xArrays a) - 1"
  shows "series_body (remove_series i a) j pl =
           series_body a (if j < i then j else Suc j) pl"
proof -
  let ?n = "length (xArrays a)"
  let ?k = "if j < i then j else Suc j"
  from p have len: "length (fieldArrays a) = ?n" "length (errArrays a) = ?n"
    and opt: "opt_length_is ?n (lineColors a)" "opt_length_is ?n (lineStyles a)"
      "opt_length_is ?n (markers a)" "opt_length_is ?n (lineWidths a)"
      "opt_length_is ?n (legendText a)"
    by (simp_all add: parallel_lists_def Let_def)
  have x: "index (remove_nth i (xArrays a)) j = index (xArrays a) ?k"
    using i j by (rule index_remove_nth)
  have f: "index (remove_nth i (fieldArrays a)) j = index (fieldArrays a) ?k"
    using i j len by (intro index_remove_nth) simp_all
  have e: "index (remove_nth i (errArrays a)) j = index (errArrays a) ?k"
    using i j len by (intro index_remove_nth) simp_all
  have o: "index_or d (map_option (remove_nth i) (lineColors a)) j = index_or d (lineColors a) ?k"
    "index_or d' (map_option (remove_nth i) (lineStyles a)) j = index_or d' (lineStyles a) ?k"
    "index_or m (map_option (remove_nth i) (markers a)) j = index_or m (markers a) ?k"
    "index_or w (map_option (remove_nth i) (lineWidths a)) j = index_or w (lineWidths a) ?k"
    for d d' m w
    using opt i j by (simp_all only: index_or_remove_nth[where n = ?n])
  have lt: "(case map_option (remove_nth i) (legendText a) of
               None \<Rightarrow> Inr (None, pl)
             | Some lt \<Rightarrow> and_then (index lt j) (\<lambda>label.
                 Inr (map_option (\<lambda>l. limit_title l (maxTitleLength a)) label, True))) =
            (case legendText a of
               None \<Rightarrow> Inr (None, pl)
             | Some lt \<Rightarrow> and_then (index lt ?k) (\<lambda>label.
                 Inr (map_option (\<lambda>l. limit_title l (maxTitleLength a)) label, True)))"
    using opt(5) i j
    by (cases "legendText a") (simp_all only: option.map option.case opt_length_is_def index_remove_nth)
  have sel: "xArrays (remove_series i a) = remove_nth i (xArrays a)"
    "fieldArrays (remove_series i a) = remove_nth i (fieldArrays a)"
    "errArrays (remove_series i a) = remove_nth i (errArrays a)"
    "lineColors (remove_series i a) = map_option (remove_nth i) (lineColors a)"
    "lineStyles (remove_series i a) = map_option (remove_nth i) (lineStyles a)"
    "markers (remove_series i a) = map_option (remove_nth i) (markers a)"
    "lineWidths (remove_series i a) = map_option (remove_nth i) (lineWidths a)"
    "legendText (remove_series i a) = map_option (remove_nth i) (legendText a)"
    "maxTitleLength (remove_series i a) = maxTitleLength a"
    by (simp_all add: remove_series_def)
  show ?thesis
    unfolding series_body_def
    by (simp only: sel x f e o lt)
qed

lemma series_loop_map:
  assumes "\<And>j pl. j \<in> set js \<Longrightarrow> series_body a' j pl = series_body a (g j) pl"
  shows "series_loop a' js pl = series_loop a (map g js) pl"
  using assms by (induction js arbitrary: pl) (simp_all split: sum.splits prod.splits)

lemma series_loop_append:
  "series_loop a (js @ ks) pl =
     (case series_loop a js pl of
        (cs, Inl e) \<Rightarrow> (cs, Inl e)
      | (cs, Inr pl') \<Rightarrow> (case series_loop a ks pl' of (cs', r) \<Rightarrow> (cs @ cs', r)))"
proof (induction js arbitrary: pl)
  case Nil
  then show ?case by (simp split: prod.splits)
next
  case (Cons j js)
  show ?case
  proof (cases "series_body a j pl")
    case (Inl e)
    then show ?thesis by simp
  next
    case (Inr p)
    obtain cs1 pl1 where p: "p = (cs1, pl1)" by (cases p)
    obtain cs2 r2 where l: "series_loop a js pl1 = (cs2, r2)" by (cases "series_loop a js pl1")
    show ?thesis
    proof (cases r2)
      case (Inl e)
      then show ?thesis using Inr p l Cons.IH[of pl1] by simp
    next
      case r2: (Inr pl2)
      obtain cs3 r3 where k: "series_loop a ks pl2 = (cs3, r3)" by (cases "series_loop a ks pl2")
      show ?thesis using Inr p l r2 k Cons.IH[of pl1] by simp
    qed
  qed
qed

lemma series_body_None:
  assumes "parallel_lists a" and "i < length (xArrays a)" and "xArrays a ! i = None"
  shows "series_body a i pl = Inr ([], pl)"
  using assms
  by (simp add: series_body_def and_then_def index_def parallel_lists_def Let_def)

lemma series_loop_skip:
  assumes "\<And>pl. series_body a i pl = Inr ([], pl)"
  shows "series_loop a (js @ i # ks) pl = series_loop a (js @ ks) pl"
proof -
  have "series_loop a (i # ks) pl' = series_loop a ks pl'" for pl'
    by (simp add: assms split: prod.splits)
  then have "series_loop a (i # ks) = series_loop a ks"
    by (rule ext)
  then show ?thesis
    unfolding series_loop_append by (simp only:)
qed

lemma upt_split: "i \<le> n \<Longrightarrow> [0..<n] = [0..<i] @ [i..<n]"
  using upt_add_eq_append[of 0 i "n - i"] by simp

lemma shifted_indices:
  assumes "i < n"
  shows "map (\<lambda>j. if j < i then j else Suc j) [0..<n - 1] = [0..<i] @ [Suc i..<n]"
proof -
  let ?g = "\<lambda>j. if j < i then j else Suc j"
  have s: "[0..<n - 1] = [0..<i] @ [i..<n - 1]"
    using assms by (intro upt_split) simp
  have a: "map ?g [0..<i] = [0..<i]"
    by (rule map_idI) simp
  have b: "map ?g [i..<n - 1] = map Suc [i..<n - 1]"
    by (rule map_cong) simp_all
  have c: "map Suc [i..<n - 1] = [Suc i..<n]"
    using assms by (simp add: map_Suc_upt)
  have "map ?g [0..<n - 1] = map ?g [0..<i] @ map ?g [i..<n - 1]"
    by (subst s) (rule map_append)
  then show ?thesis
    by (simp only: a b c)
qed

lemma series_loop_remove_series:
  assumes p: "parallel_lists a" and i: "i < length (xArrays a)" and x: "xArrays a ! i = None"
  shows "series_loop (remove_series i a) [0..<length (xArrays (remove_series i a))] pl =
           series_loop a [0..<length (xArrays a)] pl"
proof -
  let ?n = "length (xArrays a)"
  have n': "length (xArrays (remove_series i a)) = ?n - 1"
    using i by (simp add: remove_series_def remove_nth_def min_def)
  have "series_loop (remove_series i a) [0..<?n - 1] pl =
          series_loop a (map (\<lambda>j. if j < i then j else Suc j) [0..<?n - 1]) pl"
    by (rule series_loop_map) (use p i in \<open>simp add: series_body_remove_series\<close>)
  also have "\<dots> = series_loop a ([0..<i] @ [Suc i..<?n]) pl"
    by (simp only: shifted_indices[OF i])
  also have "\<dots> = series_loop a ([0..<i] @ i # [Suc i..<?n]) pl"
    by (rule series_loop_skip[symmetric]) (rule series_body_None[OF p i x])
  also have "[0..<i] @ i # [Suc i..<?n] = [0..<?n]"
    using i upt_split[of i ?n] by (simp add: upt_conv_Cons)
  finally show ?thesis by (simp only: n')
qed

lemma series_body_no_legend_text:
  assumes "legendText a = None" and "series_body a j pl = Inr (cs, pl')"
  shows "pl' = pl"
  using assms
  by (auto simp: series_body_def and_then_def index_def index_or_def
      split: if_splits option.splits sum.splits prod.splits)

lemma series_loop_no_legend_text:
  assumes "legendText a = None"
  shows "series_loop a js pl = (cs, Inr pl') \<Longrightarrow> pl' = pl"
proof (induction js arbitrary: pl cs)
  case Nil
  then show ?case by simp
next
  case (Cons j js)
  show ?case
  proof (cases "series_body a j pl")
    case (Inl e)
    with Cons.prems show ?thesis by simp
  next
    case (Inr p)
    obtain cs1 pl1 where p: "p = (cs1, pl1)" by (cases p)
    obtain cs2 r2 where l: "series_loop a js pl1 = (cs2, r2)" by (cases "series_loop a js pl1")
    from Cons.prems Inr p l have r2: "r2 = Inr pl'" by simp
    have "pl1 = pl" using series_body_no_legend_text[OF assms] Inr p by blast
    moreover have "pl' = pl1" using Cons.IH l r2 by blast
    ultimately show ?thesis by simp
  qed
qed

lemma plot_1D_unfold:
  "plot_1D config a =
     (case series_loop a [0..<length (xArrays a)] False of
        (cs, Inl e) \<Rightarrow>
          ([Rc_font (case defaultFontSize a of None \<Rightarrow> pc_defaultFontSize config | Some n \<Rightarrow> n),
            Figure (figsize a) (case dpi a of None \<Rightarrow> pc_dpi config | Some n \<Rightarrow> n)] @ cs, Inl e)
      | (cs, Inr pl) \<Rightarrow>
          ([Rc_font (case defaultFontSize a of None \<Rightarrow> pc_defaultFontSize config | Some n \<Rightarrow> n),
            Figure (figsize a) (case dpi a of None \<Rightarrow> pc_dpi config | Some n \<Rightarrow> n)] @ cs @
           finish_plot config a pl, Inr ()))"
  by (simp add: plot_1D_def io_bind_def Let_def split: prod.splits sum.splits)

lemma finish_plot_remove_series_modulo_legend:
  "filter (\<lambda>c. \<not> is_legend c) (finish_plot config (remove_series i a) pl) =
     filter (\<lambda>c. \<not> is_legend c) (finish_plot config a pl)"
  by (simp add: finish_plot_def remove_series_def Let_def split: option.splits)

lemma finish_plot_remove_series:
  assumes "i < length (xArrays a)" and "length (xArrays a) \<noteq> 2 \<or> \<not> pl"
  shows "finish_plot config (remove_series i a) pl = finish_plot config a pl"
proof -
  have "length (xArrays (remove_series i a)) = length (xArrays a) - 1"
    using assms(1) by (simp add: remove_series_def remove_nth_def min_def)
  then have "(pl \<and> length (xArrays (remove_series i a)) > 1) = (pl \<and> length (xArrays a) > 1)"
    using assms by auto
  then show ?thesis
    by (simp add: finish_plot_def remove_series_def Let_def split: option.splits)
qed

text \<open>
  C9, as amended. When the input lists are parallel and \<open>xArrays[index]\<close> is \<open>None\<close>,
  that series adds no line, no error band and no label: \<open>plot_1D\<close> ends as it does
  with the series removed from the lists, and makes the same calls apart from the
  one that draws the legend box; all calls are the same when the lists do not have
  exactly two entries or no legend text is given.
\<close>

theorem plot_1D_None_series_removed:
  assumes p: "parallel_lists a" and i: "i < length (xArrays a)" and x: "xArrays a ! i = None"
  shows "snd (plot_1D config (remove_series i a)) = snd (plot_1D config a) \<and>
         filter (\<lambda>c. \<not> is_legend c) (fst (plot_1D config (remove_series i a))) =
           filter (\<lambda>c. \<not> is_legend c) (fst (plot_1D config a)) \<and>
         (length (xArrays a) \<noteq> 2 \<or> legendText a = None \<longrightarrow>
            plot_1D config (remove_series i a) = plot_1D config a)"
proof -
  note L = series_loop_remove_series[OF p i x, of False]
  have sel: "defaultFontSize (remove_series i a) = defaultFontSize a"
    "figsize (remove_series i a) = figsize a" "dpi (remove_series i a) = dpi a"
    by (simp_all add: remove_series_def)
  obtain cs r where l: "series_loop a [0..<length (xArrays a)] False = (cs, r)"
    by (cases "series_loop a [0..<length (xArrays a)] False")
  show ?thesis
  proof (cases r)
    case (Inl e)
    then show ?thesis
      by (simp add: plot_1D_unfold L l sel)
  next
    case (Inr pl)
    have eq: "finish_plot config (remove_series i a) pl = finish_plot config a pl"
      if "length (xArrays a) \<noteq> 2 \<or> legendText a = None"
    proof (rule finish_plot_remove_series[OF i])
      from that show "length (xArrays a) \<noteq> 2 \<or> \<not> pl"
        using series_loop_no_legend_text[of a _ False cs pl] l Inr by auto
    qed
    show ?thesis
      using eq finish_plot_remove_series_modulo_legend[of config i a pl]
      by (simp add: plot_1D_unfold L l Inr sel)
  qed
qed

theorem plot_1D_None_series_removed_witness:
  "plot_1D demo_plot_config (remove_series 1 demo_plot_args3) =
     plot_1D demo_plot_config demo_plot_args3"
  using plot_1D_None_series_removed[of demo_plot_args3 1 demo_plot_config]
  by (simp add: parallel_lists_def opt_length_is_def demo_plot_args3_def demo_plot_args_def)

text \<open>
  C9 as stated fails: with two series of which the second has no x array, and a
  legend text, the legend box is drawn; with the second series removed it is not.
\<close>

theorem plot_1D_None_series_legend_differs:
  "parallel_lists demo_plot_args \<and> xArrays demo_plot_args ! 1 = None \<and>
   filter is_legend (fst (plot_1D demo_plot_config demo_plot_args)) = [Legend] \<and>
   filter is_legend (fst (plot_1D demo_plot_config (remove_series 1 demo_plot_args))) = [] \<and>
   plot_1D demo_plot_config (remove_series 1 demo_plot_args) \<noteq>
     plot_1D demo_plot_config demo_plot_args"
  by code_simp

end
